theory Spec2Isabelle
  imports Main "HOL-Library.Word"
begin

section \<open>Error values (response.go, lines 8-109)\<close>

text \<open>
  A Go \<open>error\<close> is an interface value. The package builds its error values in three ways:
  \<open>errors.New(msg)\<close> returns a pointer to a fresh \<open>errorString\<close>, so two such values are
  equal only when they are the same allocation (the first argument of \<open>errorString\<close> is
  that allocation's identity); \<open>connectionError\<close> and \<open>serverError\<close> are string types,
  compared by type and content. A \<open>nil\<close> error is \<open>None\<close> of \<open>go_error option\<close>.
\<close>

datatype go_error =
    errorString nat string
  | connectionError string
  | serverError string

definition ErrMissingRegistration :: go_error where
  "ErrMissingRegistration = errorString 0 ''MissingRegistration''"

definition ErrInvalidRegistration :: go_error where
  "ErrInvalidRegistration = errorString 1 ''InvalidRegistration''"

definition ErrNotRegistered :: go_error where
  "ErrNotRegistered = errorString 2 ''NotRegistered''"

definition ErrInvalidPackageName :: go_error where
  "ErrInvalidPackageName = errorString 3 ''InvalidPackageName''"

definition ErrMismatchSenderID :: go_error where
  "ErrMismatchSenderID = errorString 4 ''MismatchSenderId''"

definition ErrMessageTooBig :: go_error where
  "ErrMessageTooBig = errorString 5 ''MessageTooBig''"

definition ErrInvalidDataKey :: go_error where
  "ErrInvalidDataKey = errorString 6 ''InvalidDataKey''"

definition ErrInvalidTTL :: go_error where
  "ErrInvalidTTL = errorString 7 ''InvalidTTL''"

definition ErrUnavailable :: go_error where
  "ErrUnavailable = connectionError ''Unavailable''"

definition ErrInternalServerError :: go_error where
  "ErrInternalServerError = serverError ''InternalServerError''"

definition ErrDeviceMessageRateExceeded :: go_error where
  "ErrDeviceMessageRateExceeded = errorString 8 ''DeviceMessageRateExceeded''"

definition ErrTopicsMessageRateExceeded :: go_error where
  "ErrTopicsMessageRateExceeded = errorString 9 ''TopicsMessageRateExceeded''"

definition ErrInvalidParameters :: go_error where
  "ErrInvalidParameters = errorString 10 ''InvalidParameters''"

definition ErrUnknown :: go_error where
  "ErrUnknown = errorString 11 ''Unknown''"

definition ErrInvalidApnsCredential :: go_error where
  "ErrInvalidApnsCredential = errorString 12 ''InvalidApnsCredential''"

named_theorems err_defs \<open>the package's error variables, unfolded\<close>

declare ErrMissingRegistration_def [err_defs]
declare ErrInvalidRegistration_def [err_defs]
declare ErrNotRegistered_def [err_defs]
declare ErrInvalidPackageName_def [err_defs]
declare ErrMismatchSenderID_def [err_defs]
declare ErrMessageTooBig_def [err_defs]
declare ErrInvalidDataKey_def [err_defs]
declare ErrInvalidTTL_def [err_defs]
declare ErrUnavailable_def [err_defs]
declare ErrInternalServerError_def [err_defs]
declare ErrDeviceMessageRateExceeded_def [err_defs]
declare ErrTopicsMessageRateExceeded_def [err_defs]
declare ErrInvalidParameters_def [err_defs]
declare ErrUnknown_def [err_defs]
declare ErrInvalidApnsCredential_def [err_defs]

text \<open>The table from wire code to error value (lines 60-77), a Go map literal.\<close>

definition errMap :: "string \<rightharpoonup> go_error" where
  "errMap = map_of
     [(''MissingRegistration'', ErrMissingRegistration),
      (''InvalidRegistration'', ErrInvalidRegistration),
      (''NotRegistered'', ErrNotRegistered),
      (''InvalidPackageName'', ErrInvalidPackageName),
      (''MismatchSenderId'', ErrMismatchSenderID),
      (''MessageTooBig'', ErrMessageTooBig),
      (''InvalidDataKey'', ErrInvalidDataKey),
      (''InvalidTtl'', ErrInvalidTTL),
      (''Unavailable'', ErrUnavailable),
      (''InternalServerError'', ErrInternalServerError),
      (''DeviceMessageRateExceeded'', ErrDeviceMessageRateExceeded),
      (''TopicsMessageRateExceeded'', ErrTopicsMessageRateExceeded),
      (''InvalidParameters'', ErrInvalidParameters),
      (''InvalidApnsCredential'', ErrInvalidApnsCredential)]"

text \<open>
  The methods of the error types. \<open>Error\<close> exists on all three; \<open>Temporary\<close> and
  \<open>Timeout\<close> (the rest of \<open>net.Error\<close>) exist on \<open>connectionError\<close> (lines 87-93) and
  \<open>serverError\<close> (lines 103-109) only: \<open>None\<close> says that the dynamic type has no such
  method, so that a caller's assertion to \<open>net.Error\<close> fails.
\<close>

fun Error :: "go_error \<Rightarrow> string" where
  "Error (errorString a s) = s"
| "Error (connectionError err) = err"
| "Error (serverError err) = err"

fun Temporary :: "go_error \<Rightarrow> bool option" where
  "Temporary (connectionError err) = Some True"
| "Temporary (serverError err) = Some True"
| "Temporary (errorString a s) = None"

fun Timeout :: "go_error \<Rightarrow> bool option" where
  "Timeout (connectionError err) = Some True"
| "Timeout (serverError err) = Some False"
| "Timeout (errorString a s) = None"

text \<open>
  The lookup that both \<open>UnmarshalJSON\<close> methods run on a non-empty error code
  (lines 158-162 and 190-194): the table's value when the key is there, \<open>ErrUnknown\<close>
  otherwise.
\<close>

definition classify :: "string \<Rightarrow> go_error" where
  "classify code = (case errMap code of Some val \<Rightarrow> val | None \<Rightarrow> ErrUnknown)"

section \<open>JSON values and \<open>encoding/json\<close>\<close>

text \<open>
  The methods call \<open>json.Unmarshal\<close> of Go's standard library. Its scanner is not
  modelled: the input of a decode call is \<open>None\<close> when the scanner rejects the bytes
  (they are not one syntactically valid JSON value) and \<open>Some v\<close> with the value
  otherwise. A number literal
  is \<open>JInt i\<close> when it is an integer literal (an optional minus sign and digits) and
  \<open>JReal s\<close> with its text when it has a fraction or an exponent. An object keeps its
  members in the order of the text, duplicates included, since \<open>Unmarshal\<close> stores them
  one after the other.
\<close>

datatype json =
    JNull
  | JBool bool
  | JInt int
  | JReal string
  | JString string
  | JArray "json list"
  | JObject "(string \<times> json) list"

datatype decode_error = SyntaxError | UnmarshalTypeError

text \<open>
  A member's key selects the struct field whose name it equals and, failing that, the first
  field whose name it matches under Unicode simple case folding. The field names below are
  ASCII, so folding a key means: ASCII letters to upper case, the Kelvin sign (U+212A,
  bytes E2 84 AA) to \<open>K\<close>, the long s (U+017F, bytes C5 BF) to \<open>S\<close>, everything else
  unchanged.
\<close>

definition toUpperASCII :: "char \<Rightarrow> char" where
  "toUpperASCII c =
     (let n = (of_char c :: nat) in if 97 \<le> n \<and> n \<le> 122 then char_of (n - 32) else c)"

fun foldName :: "string \<Rightarrow> string" where
  "foldName [] = []"
| "foldName (c # cs) =
     (if c = CHR 0xE2 \<and> take 2 cs = [CHR 0x84, CHR 0xAA] then CHR ''K'' # foldName (drop 2 cs)
      else if c = CHR 0xC5 \<and> take 1 cs = [CHR 0xBF] then CHR ''S'' # foldName (drop 1 cs)
      else toUpperASCII c # foldName cs)"

definition match_field :: "string list \<Rightarrow> string \<Rightarrow> string option" where
  "match_field names key =
     (case find (\<lambda>f. f = key) names of
        Some f \<Rightarrow> Some f
      | None \<Rightarrow> find (\<lambda>f. foldName f = foldName key) names)"

text \<open>
  Storing a JSON value into a field: \<open>null\<close> leaves a string or an integer as it is;
  a value of another JSON type, and a number that is no integer literal or does not fit the
  field's width, is an \<open>UnmarshalTypeError\<close>. Go's \<open>int\<close> is taken at 64 bits.
\<close>

type_synonym int64 = "64 word"
type_synonym go_int = "64 word"

definition decode_string :: "string \<Rightarrow> json \<Rightarrow> decode_error + string" where
  "decode_string cur v =
     (case v of JNull \<Rightarrow> Inr cur | JString s \<Rightarrow> Inr s | _ \<Rightarrow> Inl UnmarshalTypeError)"

definition decode_int :: "64 word \<Rightarrow> json \<Rightarrow> decode_error + 64 word" where
  "decode_int cur v =
     (case v of
        JNull \<Rightarrow> Inr cur
      | JInt i \<Rightarrow>
          if - (2 ^ 63) \<le> i \<and> i < 2 ^ 63 then Inr (word_of_int i) else Inl UnmarshalTypeError
      | _ \<Rightarrow> Inl UnmarshalTypeError)"

text \<open>
  A slice is \<open>nil\<close> or a window on a backing array: \<open>Slice xs spare\<close> has the elements
  \<open>xs\<close>, and \<open>spare\<close> is what the backing array holds behind them. Storing a JSON array
  into a slice decodes the i-th element into the i-th slot of the backing array as that slot
  is (a fresh slot holds the zero value \<open>z\<close>), then cuts the slice to the array's length; an
  empty array gives a new empty slice, \<open>null\<close> gives \<open>nil\<close>. An element decoder that
  fails stops the array.
\<close>

datatype 'a slice = NilSlice | Slice "'a list" "'a list"

fun elems :: "'a slice \<Rightarrow> 'a list" where
  "elems NilSlice = []"
| "elems (Slice xs spare) = xs"

fun backing :: "'a slice \<Rightarrow> 'a list" where
  "backing NilSlice = []"
| "backing (Slice xs spare) = xs @ spare"

fun decode_elems ::
  "('a \<Rightarrow> json \<Rightarrow> decode_error + 'a) \<Rightarrow> 'a \<Rightarrow> 'a list \<Rightarrow> json list \<Rightarrow> decode_error + 'a list" where
  "decode_elems dec z old [] = Inr []"
| "decode_elems dec z old (v # vs) =
     (case dec (case old of [] \<Rightarrow> z | x # _ \<Rightarrow> x) v of
        Inl err \<Rightarrow> Inl err
      | Inr y \<Rightarrow>
          (case decode_elems dec z (tl old) vs of
             Inl err \<Rightarrow> Inl err
           | Inr ys \<Rightarrow> Inr (y # ys)))"

definition decode_slice ::
  "('a \<Rightarrow> json \<Rightarrow> decode_error + 'a) \<Rightarrow> 'a \<Rightarrow> 'a slice \<Rightarrow> json \<Rightarrow> decode_error + 'a slice" where
  "decode_slice dec z cur v =
     (case v of
        JNull \<Rightarrow> Inr NilSlice
      | JArray vs \<Rightarrow>
          (case decode_elems dec z (backing cur) vs of
             Inl err \<Rightarrow> Inl err
           | Inr ys \<Rightarrow>
               Inr (if vs = [] then Slice [] [] else Slice ys (drop (length vs) (backing cur))))
      | _ \<Rightarrow> Inl UnmarshalTypeError)"

text \<open>
  Storing an object into a struct: the members in order, each into the field its key
  selects (\<open>store f v s\<close> stores \<open>v\<close> into field \<open>f\<close> of \<open>s\<close>); a member whose key
  selects no field is skipped unread. At the top, \<open>null\<close> leaves the struct as it is and
  any other value that is no object is an \<open>UnmarshalTypeError\<close>. \<open>Unmarshal\<close> goes on after
  a type error and reports it at the end; both callers below drop the struct then, so the
  model stops at the first one.
\<close>

fun decode_object ::
  "string list \<Rightarrow> (string \<Rightarrow> json \<Rightarrow> 's \<Rightarrow> decode_error + 's) \<Rightarrow> (string \<times> json) list \<Rightarrow> 's
   \<Rightarrow> decode_error + 's" where
  "decode_object names store [] s = Inr s"
| "decode_object names store ((key, v) # kvs) s =
     (case match_field names key of
        None \<Rightarrow> decode_object names store kvs s
      | Some f \<Rightarrow>
          (case store f v s of
             Inl err \<Rightarrow> Inl err
           | Inr s' \<Rightarrow> decode_object names store kvs s'))"

definition json_Unmarshal ::
  "string list \<Rightarrow> (string \<Rightarrow> json \<Rightarrow> 's \<Rightarrow> decode_error + 's) \<Rightarrow> json option \<Rightarrow> 's
   \<Rightarrow> decode_error + 's" where
  "json_Unmarshal names store data s =
     (case data of
        None \<Rightarrow> Inl SyntaxError
      | Some JNull \<Rightarrow> Inr s
      | Some (JObject kvs) \<Rightarrow> decode_object names store kvs s
      | Some _ \<Rightarrow> Inl UnmarshalTypeError)"

section \<open>Result (lines 168-211)\<close>

record Result =
  Result_MessageID :: string
  Result_RegistrationID :: string
  Result_Error :: "go_error option"

definition zero_Result :: Result where
  "zero_Result = \<lparr>Result_MessageID = [], Result_RegistrationID = [], Result_Error = None\<rparr>"

text \<open>The local \<open>result\<close> struct of \<open>Result.UnmarshalJSON\<close> (lines 177-181) and its tags.\<close>

record result_struct =
  result_MessageID :: string
  result_RegistrationID :: string
  result_Error :: string

definition zero_result :: result_struct where
  "zero_result = \<lparr>result_MessageID = [], result_RegistrationID = [], result_Error = []\<rparr>"

definition result_fields :: "string list" where
  "result_fields = [''message_id'', ''registration_id'', ''error'']"

definition result_store :: "string \<Rightarrow> json \<Rightarrow> result_struct \<Rightarrow> decode_error + result_struct" where
  "result_store f v s =
     (if f = ''message_id'' then
        map_sum id (\<lambda>x. s\<lparr>result_MessageID := x\<rparr>) (decode_string (result_MessageID s) v)
      else if f = ''registration_id'' then
        map_sum id (\<lambda>x. s\<lparr>result_RegistrationID := x\<rparr>) (decode_string (result_RegistrationID s) v)
      else
        map_sum id (\<lambda>x. s\<lparr>result_Error := x\<rparr>) (decode_string (result_Error s) v))"

text \<open>
  \<open>Result.UnmarshalJSON\<close> (lines 176-198). The receiver \<open>r\<close> is passed in and returned
  with the error: on a decode error it is returned as it was.
\<close>

definition Result_UnmarshalJSON :: "Result \<Rightarrow> json option \<Rightarrow> Result \<times> decode_error option" where
  "Result_UnmarshalJSON r data =
     (case json_Unmarshal result_fields result_store data zero_result of
        Inl err \<Rightarrow> (r, Some err)
      | Inr result \<Rightarrow>
          (let r1 = r\<lparr>Result_MessageID := result_MessageID result,
                      Result_RegistrationID := result_RegistrationID result\<rparr>;
               r2 = (if result_Error result \<noteq> []
                     then r1\<lparr>Result_Error := Some (classify (result_Error result))\<rparr>
                     else r1)
           in (r2, None)))"

text \<open>\<open>Result.Unregistered\<close> (lines 203-211): a switch on the interface value.\<close>

definition Unregistered :: "Result \<Rightarrow> bool" where
  "Unregistered r =
     (if Result_Error r = Some ErrNotRegistered \<or> Result_Error r = Some ErrMismatchSenderID
         \<or> Result_Error r = Some ErrMissingRegistration
         \<or> Result_Error r = Some ErrInvalidRegistration
      then True else False)"

section \<open>Response (lines 111-166)\<close>

record Response =
  Response_MulticastID :: int64
  Response_Success :: go_int
  Response_Failure :: go_int
  Response_CanonicalIDs :: go_int
  Response_Results :: "Result slice"
  Response_FailedRegistrationIDs :: "string slice"
  Response_MessageID :: int64
  Response_Error :: "go_error option"

definition zero_Response :: Response where
  "zero_Response =
     \<lparr>Response_MulticastID = 0, Response_Success = 0, Response_Failure = 0,
      Response_CanonicalIDs = 0, Response_Results = NilSlice,
      Response_FailedRegistrationIDs = NilSlice, Response_MessageID = 0,
      Response_Error = None\<rparr>"

text \<open>The local \<open>response\<close> struct of \<open>Response.UnmarshalJSON\<close> (lines 130-143).\<close>

record response_struct =
  response_MulticastID :: int64
  response_Success :: go_int
  response_Failure :: go_int
  response_CanonicalIDs :: go_int
  response_Results :: "Result slice"
  response_FailedRegistrationIDs :: "string slice"
  response_MessageID :: int64
  response_Error :: string

definition zero_response :: response_struct where
  "zero_response =
     \<lparr>response_MulticastID = 0, response_Success = 0, response_Failure = 0,
      response_CanonicalIDs = 0, response_Results = NilSlice,
      response_FailedRegistrationIDs = NilSlice, response_MessageID = 0,
      response_Error = []\<rparr>"

definition response_fields :: "string list" where
  "response_fields =
     [''multicast_id'', ''success'', ''failure'', ''canonical_ids'', ''results'',
      ''failed_registration_ids'', ''message_id'', ''error'']"

text \<open>
  An element of \<open>results\<close> is a \<open>Result\<close>, which has its own \<open>UnmarshalJSON\<close>:
  \<open>Unmarshal\<close> hands it every element, whatever its JSON type, and stops when it fails.
\<close>

definition decode_Result :: "Result \<Rightarrow> json \<Rightarrow> decode_error + Result" where
  "decode_Result r v =
     (case Result_UnmarshalJSON r (Some v) of
        (r', None) \<Rightarrow> Inr r'
      | (r', Some err) \<Rightarrow> Inl err)"

definition response_store ::
  "string \<Rightarrow> json \<Rightarrow> response_struct \<Rightarrow> decode_error + response_struct" where
  "response_store f v s =
     (if f = ''multicast_id'' then
        map_sum id (\<lambda>x. s\<lparr>response_MulticastID := x\<rparr>) (decode_int (response_MulticastID s) v)
      else if f = ''success'' then
        map_sum id (\<lambda>x. s\<lparr>response_Success := x\<rparr>) (decode_int (response_Success s) v)
      else if f = ''failure'' then
        map_sum id (\<lambda>x. s\<lparr>response_Failure := x\<rparr>) (decode_int (response_Failure s) v)
      else if f = ''canonical_ids'' then
        map_sum id (\<lambda>x. s\<lparr>response_CanonicalIDs := x\<rparr>) (decode_int (response_CanonicalIDs s) v)
      else if f = ''results'' then
        map_sum id (\<lambda>x. s\<lparr>response_Results := x\<rparr>)
          (decode_slice decode_Result zero_Result (response_Results s) v)
      else if f = ''failed_registration_ids'' then
        map_sum id (\<lambda>x. s\<lparr>response_FailedRegistrationIDs := x\<rparr>)
          (decode_slice decode_string [] (response_FailedRegistrationIDs s) v)
      else if f = ''message_id'' then
        map_sum id (\<lambda>x. s\<lparr>response_MessageID := x\<rparr>) (decode_int (response_MessageID s) v)
      else
        map_sum id (\<lambda>x. s\<lparr>response_Error := x\<rparr>) (decode_string (response_Error s) v))"

text \<open>
  \<open>Response.UnmarshalJSON\<close> (lines 129-166); \<open>Success\<close> is assigned twice (lines 150
  and 154), as in the source.
\<close>

definition Response_UnmarshalJSON ::
  "Response \<Rightarrow> json option \<Rightarrow> Response \<times> decode_error option" where
  "Response_UnmarshalJSON r data =
     (case json_Unmarshal response_fields response_store data zero_response of
        Inl err \<Rightarrow> (r, Some err)
      | Inr response \<Rightarrow>
          (let r1 = r\<lparr>Response_MulticastID := response_MulticastID response,
                      Response_Success := response_Success response,
                      Response_Failure := response_Failure response,
                      Response_CanonicalIDs := response_CanonicalIDs response,
                      Response_Results := response_Results response,
                      Response_Success := response_Success response,
                      Response_FailedRegistrationIDs := response_FailedRegistrationIDs response,
                      Response_MessageID := response_MessageID response\<rparr>;
               r2 = (if response_Error response \<noteq> []
                     then r1\<lparr>Response_Error := Some (classify (response_Error response))\<rparr>
                     else r1)
           in (r2, None)))"

section \<open>The specification's notions\<close>

text \<open>The known codes of the specification's table (its section 4.1), in its order.\<close>

definition known_codes :: "string list" where
  "known_codes =
     [''MissingRegistration'', ''InvalidRegistration'', ''NotRegistered'',
      ''InvalidPackageName'', ''MismatchSenderId'', ''MessageTooBig'', ''InvalidDataKey'',
      ''InvalidTtl'', ''Unavailable'', ''InternalServerError'', ''DeviceMessageRateExceeded'',
      ''TopicsMessageRateExceeded'', ''InvalidParameters'', ''InvalidApnsCredential'']"

text \<open>
  A field's JSON type matches the field: a string field takes a string, an integer field an
  integer literal in the field's range, a slice field an array whose elements match, and
  every field takes \<open>null\<close>. A member whose key selects no field is not looked at. A
  payload is well typed when it is an object whose members all match (or \<open>null\<close>).
\<close>

fun string_ok :: "json \<Rightarrow> bool" where
  "string_ok JNull = True"
| "string_ok (JString s) = True"
| "string_ok v = False"

fun int_ok :: "json \<Rightarrow> bool" where
  "int_ok JNull = True"
| "int_ok (JInt i) = (- (2 ^ 63) \<le> i \<and> i < 2 ^ 63)"
| "int_ok v = False"

fun slice_ok :: "(json \<Rightarrow> bool) \<Rightarrow> json \<Rightarrow> bool" where
  "slice_ok ok JNull = True"
| "slice_ok ok (JArray vs) = list_all ok vs"
| "slice_ok ok v = False"

definition result_member_ok :: "string \<times> json \<Rightarrow> bool" where
  "result_member_ok m =
     (case match_field result_fields (fst m) of None \<Rightarrow> True | Some f \<Rightarrow> string_ok (snd m))"

fun result_well_typed :: "json \<Rightarrow> bool" where
  "result_well_typed JNull = True"
| "result_well_typed (JObject kvs) = list_all result_member_ok kvs"
| "result_well_typed v = False"

definition response_field_ok :: "string \<Rightarrow> json \<Rightarrow> bool" where
  "response_field_ok f v =
     (if f \<in> {''multicast_id'', ''success'', ''failure'', ''canonical_ids'', ''message_id''}
      then int_ok v
      else if f = ''results'' then slice_ok result_well_typed v
      else if f = ''failed_registration_ids'' then slice_ok string_ok v
      else string_ok v)"

definition response_member_ok :: "string \<times> json \<Rightarrow> bool" where
  "response_member_ok m =
     (case match_field response_fields (fst m) of
        None \<Rightarrow> True
      | Some f \<Rightarrow> response_field_ok f (snd m))"

fun response_well_typed :: "json \<Rightarrow> bool" where
  "response_well_typed JNull = True"
| "response_well_typed (JObject kvs) = list_all response_member_ok kvs"
| "response_well_typed v = False"

text \<open>A Response that a caller has used before: some of its fields hold values.\<close>

definition stale_Response :: Response where
  "stale_Response = zero_Response\<lparr>Response_Success := 3, Response_MessageID := 9,
     Response_Error := Some ErrUnavailable\<rparr>"

text \<open>
  The two groups of fields of a Response. Go keeps no record of which members a payload had, so
  a group is populated when one of its fields differs from its zero value.
\<close>

definition multicast_fields :: "string list" where
  "multicast_fields =
     [''multicast_id'', ''success'', ''failure'', ''canonical_ids'', ''results'',
      ''failed_registration_ids'']"

definition topic_fields :: "string list" where
  "topic_fields = [''message_id'', ''error'']"

definition multicast_populated :: "Response \<Rightarrow> bool" where
  "multicast_populated r =
     (Response_MulticastID r \<noteq> 0 \<or> Response_Success r \<noteq> 0 \<or> Response_Failure r \<noteq> 0
      \<or> Response_CanonicalIDs r \<noteq> 0 \<or> Response_Results r \<noteq> NilSlice
      \<or> Response_FailedRegistrationIDs r \<noteq> NilSlice)"

definition topic_populated :: "Response \<Rightarrow> bool" where
  "topic_populated r = (Response_MessageID r \<noteq> 0 \<or> Response_Error r \<noteq> None)"

text \<open>The integer fields of a Response, by the names of their members.\<close>

definition int_fields :: "string list" where
  "int_fields = [''multicast_id'', ''success'', ''failure'', ''canonical_ids'', ''message_id'']"

section \<open>Lemmas on the table and on decoding\<close>

subsection \<open>The table\<close>

lemma errMap_other: "code \<notin> set known_codes \<Longrightarrow> errMap code = None"
  by (simp add: errMap_def known_codes_def)

lemma classify_known:
  "classify ''MissingRegistration'' = ErrMissingRegistration"
  "classify ''InvalidRegistration'' = ErrInvalidRegistration"
  "classify ''NotRegistered'' = ErrNotRegistered"
  "classify ''InvalidPackageName'' = ErrInvalidPackageName"
  "classify ''MismatchSenderId'' = ErrMismatchSenderID"
  "classify ''MessageTooBig'' = ErrMessageTooBig"
  "classify ''InvalidDataKey'' = ErrInvalidDataKey"
  "classify ''InvalidTtl'' = ErrInvalidTTL"
  "classify ''Unavailable'' = ErrUnavailable"
  "classify ''InternalServerError'' = ErrInternalServerError"
  "classify ''DeviceMessageRateExceeded'' = ErrDeviceMessageRateExceeded"
  "classify ''TopicsMessageRateExceeded'' = ErrTopicsMessageRateExceeded"
  "classify ''InvalidParameters'' = ErrInvalidParameters"
  "classify ''InvalidApnsCredential'' = ErrInvalidApnsCredential"
  by (simp_all add: classify_def errMap_def)

lemma classify_other: "code \<notin> set known_codes \<Longrightarrow> classify code = ErrUnknown"
  by (simp add: classify_def errMap_other)

lemma known_codes_cases:
  assumes "code \<in> set known_codes"
    and "P ''MissingRegistration''" and "P ''InvalidRegistration''" and "P ''NotRegistered''"
    and "P ''InvalidPackageName''" and "P ''MismatchSenderId''" and "P ''MessageTooBig''"
    and "P ''InvalidDataKey''" and "P ''InvalidTtl''" and "P ''Unavailable''"
    and "P ''InternalServerError''" and "P ''DeviceMessageRateExceeded''"
    and "P ''TopicsMessageRateExceeded''" and "P ''InvalidParameters''"
    and "P ''InvalidApnsCredential''"
  shows "P code"
proof -
  from assms(1) have "code = ''MissingRegistration'' \<or> code = ''InvalidRegistration''
    \<or> code = ''NotRegistered'' \<or> code = ''InvalidPackageName'' \<or> code = ''MismatchSenderId''
    \<or> code = ''MessageTooBig'' \<or> code = ''InvalidDataKey'' \<or> code = ''InvalidTtl''
    \<or> code = ''Unavailable'' \<or> code = ''InternalServerError''
    \<or> code = ''DeviceMessageRateExceeded'' \<or> code = ''TopicsMessageRateExceeded''
    \<or> code = ''InvalidParameters'' \<or> code = ''InvalidApnsCredential''"
    unfolding known_codes_def by (simp only: list.set insert_iff empty_iff simp_thms)
  then show ?thesis
    by (elim disjE ssubst) (rule assms)+
qed

lemma unregistered_classify:
  "Unregistered (r\<lparr>Result_Error := Some (classify code)\<rparr>) \<longleftrightarrow>
     code \<in> {''NotRegistered'', ''MismatchSenderId'', ''MissingRegistration'',
       ''InvalidRegistration''}"
proof (cases "code \<in> set known_codes")
  case True
  then show ?thesis
    by (rule known_codes_cases) (simp_all add: classify_known Unregistered_def err_defs)
next
  case False
  then have "code \<notin> {''NotRegistered'', ''MismatchSenderId'', ''MissingRegistration'',
       ''InvalidRegistration''}"
    by (simp add: known_codes_def)
  with classify_other [OF False] show ?thesis
    by (simp add: Unregistered_def err_defs)
qed

lemma decode_error_member:
  "Result_UnmarshalJSON r (Some (JObject [(''error'', JString s)])) =
     (r\<lparr>Result_MessageID := [], Result_RegistrationID := [],
        Result_Error := (if s = [] then Result_Error r else Some (classify s))\<rparr>, None)"
proof -
  have m1: "match_field result_fields ''error'' = Some ''error''"
    by (simp add: match_field_def result_fields_def)
  have m2: "json_Unmarshal result_fields result_store (Some (JObject [(''error'', JString s)]))
      zero_result = Inr (zero_result\<lparr>result_Error := s\<rparr>)"
    by (simp add: json_Unmarshal_def m1 result_store_def decode_string_def)
  show ?thesis
    unfolding Result_UnmarshalJSON_def m2 by (simp add: zero_result_def)
qed

subsection \<open>Which inputs fail to decode\<close>

lemma match_field_in: "match_field names k = Some f \<Longrightarrow> f \<in> set names"
  by (auto simp: match_field_def find_Some_iff split: option.splits)

lemma decode_object_append:
  "decode_object names store (xs @ ys) s =
     (case decode_object names store xs s of
        Inl err \<Rightarrow> Inl err
      | Inr s' \<Rightarrow> decode_object names store ys s')"
  by (induction xs arbitrary: s) (auto split: option.splits sum.splits)

lemma decode_object_inv:
  assumes step: "\<And>f v s s'. f \<in> F \<Longrightarrow> store f v s = Inr s' \<Longrightarrow> g s' = g s"
    and keys: "\<forall>m \<in> set kvs. \<forall>f. match_field names (fst m) = Some f \<longrightarrow> f \<in> F"
    and run: "decode_object names store kvs s = Inr s'"
  shows "g s' = g s"
  using keys run
proof (induction kvs arbitrary: s)
  case Nil
  then show ?case by simp
next
  case (Cons m kvs)
  obtain k v where m: "m = (k, v)" by (cases m)
  show ?case
  proof (cases "match_field names k")
    case None
    with Cons m show ?thesis by simp
  next
    case (Some f)
    with Cons.prems m have fF: "f \<in> F" by simp
    from Cons.prems(2) m Some obtain s1 where s1: "store f v s = Inr s1"
      and rest: "decode_object names store kvs s1 = Inr s'"
      by (auto split: sum.splits)
    from Cons.IH [OF _ rest] Cons.prems(1) have "g s' = g s1" by simp
    with step [OF fF s1] show ?thesis by simp
  qed
qed

lemma decode_string_isl: "isl (decode_string cur v) \<longleftrightarrow> \<not> string_ok v"
  by (cases v) (simp_all add: decode_string_def)

lemma decode_int_isl: "isl (decode_int cur v) \<longleftrightarrow> \<not> int_ok v"
  by (cases v) (simp_all add: decode_int_def)

lemma isl_map_sum: "isl (map_sum f g x) = isl x"
  by (cases x) simp_all

lemma result_store_isl:
  "isl (result_store f v s) \<longleftrightarrow> \<not> string_ok v"
  by (simp add: result_store_def isl_map_sum decode_string_isl)

lemma decode_object_result_isl:
  "isl (decode_object result_fields result_store kvs s) \<longleftrightarrow> \<not> list_all result_member_ok kvs"
proof (induction kvs arbitrary: s)
  case Nil
  show ?case by simp
next
  case (Cons m kvs)
  obtain k v where m: "m = (k, v)" by (cases m)
  show ?case
  proof (cases "match_field result_fields k")
    case None
    with Cons m show ?thesis by (simp add: result_member_ok_def)
  next
    case (Some f)
    show ?thesis
    proof (cases "result_store f v s")
      case (Inl e)
      with result_store_isl [of f v s] have "\<not> string_ok v" by simp
      with Inl Some m show ?thesis by (simp add: result_member_ok_def)
    next
      case (Inr s1)
      with result_store_isl [of f v s] have "string_ok v" by simp
      with Inr Some m Cons.IH [of s1] show ?thesis by (simp add: result_member_ok_def)
    qed
  qed
qed

lemma json_Unmarshal_result_isl:
  "isl (json_Unmarshal result_fields result_store data s) \<longleftrightarrow>
     (case data of None \<Rightarrow> True | Some v \<Rightarrow> \<not> result_well_typed v)"
proof (cases data)
  case None
  then show ?thesis by (simp add: json_Unmarshal_def)
next
  case (Some v)
  then show ?thesis
    by (cases v) (simp_all add: json_Unmarshal_def decode_object_result_isl)
qed

lemma Result_UnmarshalJSON_fails_iff:
  "snd (Result_UnmarshalJSON r data) \<noteq> None \<longleftrightarrow>
     (case data of None \<Rightarrow> True | Some v \<Rightarrow> \<not> result_well_typed v)"
  using json_Unmarshal_result_isl [of data zero_result]
  by (cases "json_Unmarshal result_fields result_store data zero_result")
     (simp_all add: Result_UnmarshalJSON_def Let_def)

lemma decode_Result_isl: "isl (decode_Result r v) \<longleftrightarrow> \<not> result_well_typed v"
  using Result_UnmarshalJSON_fails_iff [of r "Some v"]
  by (cases "Result_UnmarshalJSON r (Some v)") (auto simp: decode_Result_def split: option.splits)

lemma decode_elems_isl:
  assumes "\<And>t v. isl (dec t v) \<longleftrightarrow> \<not> ok v"
  shows "isl (decode_elems dec z old vs) \<longleftrightarrow> \<not> list_all ok vs"
proof (induction vs arbitrary: old)
  case Nil
  show ?case by simp
next
  case (Cons v vs)
  show ?case
  proof (cases "dec (case old of [] \<Rightarrow> z | x # _ \<Rightarrow> x) v")
    case (Inl e)
    with assms [of "case old of [] \<Rightarrow> z | x # _ \<Rightarrow> x" v] have "\<not> ok v" by simp
    with Inl show ?thesis by simp
  next
    case (Inr y)
    with assms [of "case old of [] \<Rightarrow> z | x # _ \<Rightarrow> x" v] have "ok v" by simp
    with Inr Cons.IH [of "tl old"] show ?thesis
      by (cases "decode_elems dec z (tl old) vs") simp_all
  qed
qed

lemma decode_slice_isl:
  assumes "\<And>t v. isl (dec t v) \<longleftrightarrow> \<not> ok v"
  shows "isl (decode_slice dec z cur v) \<longleftrightarrow> \<not> slice_ok ok v"
proof (cases v)
  case (JArray vs)
  have "isl (decode_elems dec z (backing cur) vs) \<longleftrightarrow> \<not> list_all ok vs"
    by (rule decode_elems_isl) (rule assms)
  with JArray show ?thesis
    by (cases "decode_elems dec z (backing cur) vs") (simp_all add: decode_slice_def)
qed (simp_all add: decode_slice_def)

lemma response_store_isl:
  "f \<in> set response_fields \<Longrightarrow> isl (response_store f v s) \<longleftrightarrow> \<not> response_field_ok f v"
  by (auto simp: response_fields_def response_store_def response_field_ok_def isl_map_sum
      decode_int_isl decode_string_isl decode_slice_isl [OF decode_Result_isl]
      decode_slice_isl [OF decode_string_isl])

lemma decode_object_response_isl:
  "isl (decode_object response_fields response_store kvs s) \<longleftrightarrow>
     \<not> list_all response_member_ok kvs"
proof (induction kvs arbitrary: s)
  case Nil
  show ?case by simp
next
  case (Cons m kvs)
  obtain k v where m: "m = (k, v)" by (cases m)
  show ?case
  proof (cases "match_field response_fields k")
    case None
    with Cons m show ?thesis by (simp add: response_member_ok_def)
  next
    case (Some f)
    then have fin: "f \<in> set response_fields" by (rule match_field_in)
    show ?thesis
    proof (cases "response_store f v s")
      case (Inl e)
      with response_store_isl [OF fin, of v s] have "\<not> response_field_ok f v" by simp
      with Inl Some m show ?thesis by (simp add: response_member_ok_def)
    next
      case (Inr s1)
      with response_store_isl [OF fin, of v s] have "response_field_ok f v" by simp
      with Inr Some m Cons.IH [of s1] show ?thesis by (simp add: response_member_ok_def)
    qed
  qed
qed

lemma json_Unmarshal_response_isl:
  "isl (json_Unmarshal response_fields response_store data s) \<longleftrightarrow>
     (case data of None \<Rightarrow> True | Some v \<Rightarrow> \<not> response_well_typed v)"
proof (cases data)
  case None
  then show ?thesis by (simp add: json_Unmarshal_def)
next
  case (Some v)
  then show ?thesis
    by (cases v) (simp_all add: json_Unmarshal_def decode_object_response_isl)
qed

lemma Response_UnmarshalJSON_fails_iff:
  "snd (Response_UnmarshalJSON r data) \<noteq> None \<longleftrightarrow>
     (case data of None \<Rightarrow> True | Some v \<Rightarrow> \<not> response_well_typed v)"
  using json_Unmarshal_response_isl [of data zero_response]
  by (cases "json_Unmarshal response_fields response_store data zero_response")
     (simp_all add: Response_UnmarshalJSON_def Let_def)

subsection \<open>Keys that are field names\<close>

lemma find_exact: "f \<in> set names \<Longrightarrow> find (\<lambda>g. g = f) names = Some f"
  by (induction names) auto

lemma match_field_exact: "f \<in> set names \<Longrightarrow> match_field names f = Some f"
  by (simp add: match_field_def find_exact)

lemma match_response_fields:
  "match_field response_fields ''multicast_id'' = Some ''multicast_id''"
  "match_field response_fields ''success'' = Some ''success''"
  "match_field response_fields ''failure'' = Some ''failure''"
  "match_field response_fields ''canonical_ids'' = Some ''canonical_ids''"
  "match_field response_fields ''results'' = Some ''results''"
  "match_field response_fields ''failed_registration_ids'' = Some ''failed_registration_ids''"
  "match_field response_fields ''message_id'' = Some ''message_id''"
  "match_field response_fields ''error'' = Some ''error''"
  by (rule match_field_exact, simp add: response_fields_def)+

lemma match_result_fields:
  "match_field result_fields ''message_id'' = Some ''message_id''"
  "match_field result_fields ''registration_id'' = Some ''registration_id''"
  "match_field result_fields ''error'' = Some ''error''"
  by (rule match_field_exact, simp add: result_fields_def)+

lemma response_store_zero:
  "response_store ''multicast_id'' (JInt 0) zero_response = Inr zero_response"
  "response_store ''success'' (JInt 0) zero_response = Inr zero_response"
  "response_store ''failure'' (JInt 0) zero_response = Inr zero_response"
  "response_store ''canonical_ids'' (JInt 0) zero_response = Inr zero_response"
  "response_store ''message_id'' (JInt 0) zero_response = Inr zero_response"
  by (simp_all add: response_store_def decode_int_def zero_response_def)

lemma Response_UnmarshalJSON_empty:
  "Response_UnmarshalJSON zero_Response (Some (JObject [])) = (zero_Response, None)"
  by (simp add: Response_UnmarshalJSON_def json_Unmarshal_def zero_response_def zero_Response_def)

subsection \<open>A payload with an ill-typed result\<close>

lemma bad_element:
  "snd (Response_UnmarshalJSON stale_Response
      (Some (JObject [(''multicast_id'', JInt 7),
         (''results'', JArray [JObject [(''message_id'', JString ''m1'')],
            JObject [(''error'', JInt 5)]])]))) = Some UnmarshalTypeError"
proof -
  have r1: "decode_Result zero_Result (JObject [(''message_id'', JString ''m1'')]) =
      Inr (zero_Result\<lparr>Result_MessageID := ''m1''\<rparr>)"
    by (simp add: decode_Result_def Result_UnmarshalJSON_def json_Unmarshal_def
        match_result_fields result_store_def decode_string_def zero_result_def zero_Result_def)
  have r2: "decode_Result zero_Result (JObject [(''error'', JInt 5)]) = Inl UnmarshalTypeError"
    by (simp add: decode_Result_def Result_UnmarshalJSON_def json_Unmarshal_def
        match_result_fields result_store_def decode_string_def)
  have "json_Unmarshal response_fields response_store
      (Some (JObject [(''multicast_id'', JInt 7),
         (''results'', JArray [JObject [(''message_id'', JString ''m1'')],
            JObject [(''error'', JInt 5)]])])) zero_response = Inl UnmarshalTypeError"
    by (simp add: json_Unmarshal_def match_response_fields response_store_def decode_int_def
        decode_slice_def r1 r2 zero_response_def)
  then show ?thesis by (simp add: Response_UnmarshalJSON_def)
qed

subsection \<open>The kind of a decode error\<close>

lemma decode_string_err: "decode_string cur v = Inl e \<Longrightarrow> e = UnmarshalTypeError"
  by (cases v) (simp_all add: decode_string_def)

lemma decode_int_err: "decode_int cur v = Inl e \<Longrightarrow> e = UnmarshalTypeError"
  by (cases v) (simp_all add: decode_int_def split: if_splits)

lemma map_sum_Inl: "map_sum id g x = Inl e \<Longrightarrow> x = Inl e"
  by (cases x) simp_all

lemma decode_object_err:
  assumes "decode_object names store kvs s = Inl e"
    and "\<And>f v s e. store f v s = Inl e \<Longrightarrow> e = UnmarshalTypeError"
  shows "e = UnmarshalTypeError"
  using assms(1)
proof (induction kvs arbitrary: s)
  case Nil
  then show ?case by simp
next
  case (Cons m kvs)
  obtain k x where m: "m = (k, x)" by (cases m)
  show ?case
  proof (cases "match_field names k")
    case None
    with Cons m show ?thesis by simp
  next
    case (Some f)
    show ?thesis
    proof (cases "store f x s")
      case (Inl e')
      with Some m Cons.prems have "e' = e" by simp
      with Inl assms(2) show ?thesis by blast
    next
      case (Inr s1)
      with Some m Cons.prems have "decode_object names store kvs s1 = Inl e" by simp
      then show ?thesis by (rule Cons.IH)
    qed
  qed
qed

lemma json_Unmarshal_err:
  assumes "json_Unmarshal names store (Some v) s = Inl e"
    and "\<And>f v s e. store f v s = Inl e \<Longrightarrow> e = UnmarshalTypeError"
  shows "e = UnmarshalTypeError"
proof (cases v)
  case (JObject kvs)
  with assms(1) have "decode_object names store kvs s = Inl e"
    by (simp add: json_Unmarshal_def)
  then show ?thesis by (rule decode_object_err) (rule assms(2))
qed (use assms(1) in \<open>simp_all add: json_Unmarshal_def\<close>)

lemma result_store_err: "result_store f v s = Inl e \<Longrightarrow> e = UnmarshalTypeError"
  by (auto simp: result_store_def split: if_splits dest!: map_sum_Inl decode_string_err)

lemma decode_Result_err: "decode_Result r v = Inl e \<Longrightarrow> e = UnmarshalTypeError"
proof -
  assume a: "decode_Result r v = Inl e"
  show ?thesis
  proof (cases "json_Unmarshal result_fields result_store (Some v) zero_result")
    case (Inl e')
    then have "e' = UnmarshalTypeError"
      by (rule json_Unmarshal_err) (rule result_store_err)
    with Inl a show ?thesis
      by (simp add: decode_Result_def Result_UnmarshalJSON_def)
  next
    case (Inr s)
    with a show ?thesis
      by (simp add: decode_Result_def Result_UnmarshalJSON_def Let_def)
  qed
qed

lemma decode_elems_err:
  assumes "decode_elems dec z old vs = Inl e"
    and "\<And>t v e. dec t v = Inl e \<Longrightarrow> e = UnmarshalTypeError"
  shows "e = UnmarshalTypeError"
  using assms(1)
proof (induction vs arbitrary: old)
  case Nil
  then show ?case by simp
next
  case (Cons v vs)
  show ?case
  proof (cases "dec (case old of [] \<Rightarrow> z | x # _ \<Rightarrow> x) v")
    case (Inl e')
    with Cons.prems have "e' = e" by simp
    with Inl assms(2) show ?thesis by blast
  next
    case (Inr y)
    with Cons.prems have "decode_elems dec z (tl old) vs = Inl e"
      by (simp split: sum.splits)
    then show ?thesis by (rule Cons.IH)
  qed
qed

lemma decode_slice_err:
  assumes "decode_slice dec z cur v = Inl e"
    and "\<And>t v e. dec t v = Inl e \<Longrightarrow> e = UnmarshalTypeError"
  shows "e = UnmarshalTypeError"
proof (cases v)
  case (JArray vs)
  with assms(1) have "decode_elems dec z (backing cur) vs = Inl e"
    by (simp add: decode_slice_def split: sum.splits)
  then show ?thesis by (rule decode_elems_err) (rule assms(2))
qed (use assms(1) in \<open>simp_all add: decode_slice_def\<close>)

lemma decode_Result_slice_err:
  "decode_slice decode_Result z cur v = Inl e \<Longrightarrow> e = UnmarshalTypeError"
  by (erule decode_slice_err) (rule decode_Result_err)

lemma decode_string_slice_err:
  "decode_slice decode_string z cur v = Inl e \<Longrightarrow> e = UnmarshalTypeError"
  by (erule decode_slice_err) (rule decode_string_err)

lemma response_store_err: "response_store f v s = Inl e \<Longrightarrow> e = UnmarshalTypeError"
  unfolding response_store_def
  by (auto split: if_splits dest!: map_sum_Inl
      dest: decode_string_err decode_int_err decode_Result_slice_err decode_string_slice_err)

lemma Response_UnmarshalJSON_syntax:
  "snd (Response_UnmarshalJSON r data) = Some SyntaxError \<longleftrightarrow> data = None"
proof (cases data)
  case None
  then show ?thesis by (simp add: Response_UnmarshalJSON_def json_Unmarshal_def)
next
  case (Some v)
  show ?thesis
  proof (cases "json_Unmarshal response_fields response_store (Some v) zero_response")
    case (Inl e)
    then have "e = UnmarshalTypeError"
      by (rule json_Unmarshal_err) (rule response_store_err)
    with Inl Some show ?thesis by (simp add: Response_UnmarshalJSON_def)
  next
    case (Inr s)
    with Some show ?thesis by (simp add: Response_UnmarshalJSON_def Let_def)
  qed
qed

lemma Result_UnmarshalJSON_syntax:
  "snd (Result_UnmarshalJSON q data) = Some SyntaxError \<longleftrightarrow> data = None"
proof (cases data)
  case None
  then show ?thesis by (simp add: Result_UnmarshalJSON_def json_Unmarshal_def)
next
  case (Some v)
  show ?thesis
  proof (cases "json_Unmarshal result_fields result_store (Some v) zero_result")
    case (Inl e)
    then have "e = UnmarshalTypeError"
      by (rule json_Unmarshal_err) (rule result_store_err)
    with Inl Some show ?thesis by (simp add: Result_UnmarshalJSON_def)
  next
    case (Inr s)
    with Some show ?thesis by (simp add: Result_UnmarshalJSON_def Let_def)
  qed
qed

lemma decode_error_cases: "e = SyntaxError \<or> e = UnmarshalTypeError"
  by (cases e) simp_all

lemma Response_UnmarshalJSON_type:
  "snd (Response_UnmarshalJSON r data) = Some UnmarshalTypeError \<longleftrightarrow>
     (\<exists>v. data = Some v \<and> \<not> response_well_typed v)"
proof (cases data)
  case None
  with Response_UnmarshalJSON_syntax [of r data] show ?thesis by simp
next
  case (Some v)
  with Response_UnmarshalJSON_syntax [of r data]
  have ns: "snd (Response_UnmarshalJSON r data) \<noteq> Some SyntaxError" by simp
  from Some Response_UnmarshalJSON_fails_iff [of r data]
  have "snd (Response_UnmarshalJSON r data) \<noteq> None \<longleftrightarrow> \<not> response_well_typed v" by simp
  with ns Some show ?thesis
    using decode_error_cases by (cases "snd (Response_UnmarshalJSON r data)") auto
qed

lemma Result_UnmarshalJSON_type:
  "snd (Result_UnmarshalJSON q data) = Some UnmarshalTypeError \<longleftrightarrow>
     (\<exists>v. data = Some v \<and> \<not> result_well_typed v)"
proof (cases data)
  case None
  with Result_UnmarshalJSON_syntax [of q data] show ?thesis by simp
next
  case (Some v)
  with Result_UnmarshalJSON_syntax [of q data]
  have ns: "snd (Result_UnmarshalJSON q data) \<noteq> Some SyntaxError" by simp
  from Some Result_UnmarshalJSON_fails_iff [of q data]
  have "snd (Result_UnmarshalJSON q data) \<noteq> None \<longleftrightarrow> \<not> result_well_typed v" by simp
  with ns Some show ?thesis
    using decode_error_cases by (cases "snd (Result_UnmarshalJSON q data)") auto
qed

lemma decode_both_members:
  "Result_UnmarshalJSON q
     (Some (JObject [(''message_id'', JString mid), (''error'', JString code)])) =
   (q\<lparr>Result_MessageID := mid, Result_RegistrationID := [],
      Result_Error := (if code = [] then Result_Error q else Some (classify code))\<rparr>, None)"
proof -
  have "json_Unmarshal result_fields result_store
      (Some (JObject [(''message_id'', JString mid), (''error'', JString code)])) zero_result =
    Inr (zero_result\<lparr>result_MessageID := mid, result_Error := code\<rparr>)"
    by (simp add: json_Unmarshal_def match_result_fields result_store_def decode_string_def)
  then show ?thesis
    unfolding Result_UnmarshalJSON_def by (simp add: zero_result_def)
qed

subsection \<open>Fields that a payload does not touch\<close>

lemma decode_object_pres:
  assumes run: "decode_object names store kvs s = Inr s'"
    and start: "P s"
    and step: "\<And>k v f t t'. (k, v) \<in> set kvs \<Longrightarrow> match_field names k = Some f \<Longrightarrow>
      store f v t = Inr t' \<Longrightarrow> P t \<Longrightarrow> P t'"
  shows "P s'"
  using run start step
proof (induction kvs arbitrary: s)
  case Nil
  then show ?case by simp
next
  case (Cons m kvs)
  obtain k v where m: "m = (k, v)" by (cases m)
  have later: "\<And>k v f t t'. (k, v) \<in> set kvs \<Longrightarrow> match_field names k = Some f \<Longrightarrow>
      store f v t = Inr t' \<Longrightarrow> P t \<Longrightarrow> P t'"
    using Cons.prems(3) by (meson list.set_intros(2))
  show ?case
  proof (cases "match_field names k")
    case None
    with Cons.prems(1) m have "decode_object names store kvs s = Inr s'" by simp
    from Cons.IH [OF this Cons.prems(2) later] show ?thesis .
  next
    case (Some f)
    from Cons.prems(1) m Some obtain s1 where s1: "store f v s = Inr s1"
      and rest: "decode_object names store kvs s1 = Inr s'"
      by (auto split: sum.splits)
    have "P s1"
      using Cons.prems(3) [of k v f s s1] m Some s1 Cons.prems(2) by simp
    from Cons.IH [OF rest this later] show ?thesis .
  qed
qed

lemma map_sum_Inr: "map_sum id g x = Inr y \<Longrightarrow> \<exists>a. x = Inr a \<and> y = g a"
  by (cases x) auto

lemma response_store_keeps_topic:
  assumes "f \<in> set multicast_fields" and "response_store f v s = Inr s'"
  shows "response_MessageID s' = response_MessageID s \<and> response_Error s' = response_Error s"
  using assms unfolding response_store_def multicast_fields_def
  by (auto split: if_splits dest!: map_sum_Inr)

lemma response_store_keeps_multicast:
  assumes "f \<in> set topic_fields" and "response_store f v s = Inr s'"
  shows "response_MulticastID s' = response_MulticastID s
    \<and> response_Success s' = response_Success s \<and> response_Failure s' = response_Failure s
    \<and> response_CanonicalIDs s' = response_CanonicalIDs s
    \<and> response_Results s' = response_Results s
    \<and> response_FailedRegistrationIDs s' = response_FailedRegistrationIDs s"
  using assms unfolding response_store_def topic_fields_def
  by (auto split: if_splits dest!: map_sum_Inr)

lemma response_fields_groups:
  "f \<in> set response_fields \<Longrightarrow> f \<in> set multicast_fields \<or> f \<in> set topic_fields"
  by (simp add: response_fields_def multicast_fields_def topic_fields_def)

lemma no_topic_member:
  assumes keys: "\<forall>m \<in> set kvs. match_field response_fields (fst m) \<notin> Some ` set topic_fields"
  shows "\<not> topic_populated (fst (Response_UnmarshalJSON zero_Response (Some (JObject kvs))))"
proof (cases "decode_object response_fields response_store kvs zero_response")
  case (Inl e)
  then show ?thesis
    by (simp add: Response_UnmarshalJSON_def json_Unmarshal_def topic_populated_def
        zero_Response_def)
next
  case (Inr s')
  have "response_MessageID s' = 0 \<and> response_Error s' = []"
  proof (rule decode_object_pres [OF Inr])
    show "response_MessageID zero_response = 0 \<and> response_Error zero_response = []"
      by (simp add: zero_response_def)
  next
    fix k v f t t'
    assume kv: "(k, v) \<in> set kvs" and mf: "match_field response_fields k = Some f"
      and st: "response_store f v t = Inr t'"
      and inv: "response_MessageID t = 0 \<and> response_Error t = []"
    from keys kv mf have "f \<notin> set topic_fields" by force
    with match_field_in [OF mf] response_fields_groups have "f \<in> set multicast_fields" by blast
    from response_store_keeps_topic [OF this st] inv
    show "response_MessageID t' = 0 \<and> response_Error t' = []" by simp
  qed
  with Inr show ?thesis
    by (simp add: Response_UnmarshalJSON_def json_Unmarshal_def topic_populated_def
        zero_Response_def)
qed

lemma no_multicast_member:
  assumes keys: "\<forall>m \<in> set kvs. match_field response_fields (fst m) \<notin> Some ` set multicast_fields"
  shows "\<not> multicast_populated (fst (Response_UnmarshalJSON zero_Response (Some (JObject kvs))))"
proof (cases "decode_object response_fields response_store kvs zero_response")
  case (Inl e)
  then show ?thesis
    by (simp add: Response_UnmarshalJSON_def json_Unmarshal_def multicast_populated_def
        zero_Response_def)
next
  case (Inr s')
  let ?P = "\<lambda>s. response_MulticastID s = 0 \<and> response_Success s = 0 \<and> response_Failure s = 0
    \<and> response_CanonicalIDs s = 0 \<and> response_Results s = NilSlice
    \<and> response_FailedRegistrationIDs s = NilSlice"
  have "?P s'"
  proof (rule decode_object_pres [OF Inr])
    show "?P zero_response"
      by (simp add: zero_response_def)
  next
    fix k v f t t'
    assume kv: "(k, v) \<in> set kvs" and mf: "match_field response_fields k = Some f"
      and st: "response_store f v t = Inr t'"
      and inv: "?P t"
    from keys kv mf have "f \<notin> set multicast_fields" by force
    with match_field_in [OF mf] response_fields_groups have "f \<in> set topic_fields" by blast
    from response_store_keeps_multicast [OF this st] inv
    show "?P t'" by simp
  qed
  with Inr show ?thesis
    by (simp add: Response_UnmarshalJSON_def json_Unmarshal_def multicast_populated_def
        zero_Response_def Let_def)
qed

subsection \<open>The error code of a payload\<close>

lemma result_store_error:
  assumes "f \<in> set result_fields" and "result_store f v s = Inr s'"
  shows "result_Error s' =
    (if f = ''error'' then (case v of JString c \<Rightarrow> c | _ \<Rightarrow> result_Error s) else result_Error s)"
  using assms unfolding result_store_def result_fields_def
  by (cases v) (auto simp: decode_string_def split: if_splits)

lemma response_store_error:
  assumes "f \<in> set response_fields" and "response_store f v s = Inr s'"
  shows "response_Error s' =
    (if f = ''error'' then (case v of JString c \<Rightarrow> c | _ \<Rightarrow> response_Error s)
     else response_Error s)"
  using assms unfolding response_store_def response_fields_def
  by (cases v) (auto simp: decode_string_def split: if_splits dest!: map_sum_Inr)

lemma result_error_stays_empty:
  assumes keys: "\<forall>m \<in> set kvs. match_field result_fields (fst m) = Some ''error'' \<longrightarrow>
      snd m = JString [] \<or> snd m = JNull"
    and run: "decode_object result_fields result_store kvs s = Inr s'"
    and start: "result_Error s = []"
  shows "result_Error s' = []"
proof (rule decode_object_pres [OF run, where P = "\<lambda>s. result_Error s = []"])
  show "result_Error s = []" by (rule start)
next
  fix k v f t t'
  assume kv: "(k, v) \<in> set kvs" and mf: "match_field result_fields k = Some f"
    and st: "result_store f v t = Inr t'" and inv: "result_Error t = []"
  from keys kv mf have "f = ''error'' \<longrightarrow> v = JString [] \<or> v = JNull" by force
  with result_store_error [OF match_field_in [OF mf] st] inv
  show "result_Error t' = []" by auto
qed

lemma response_error_stays_empty:
  assumes keys: "\<forall>m \<in> set kvs. match_field response_fields (fst m) = Some ''error'' \<longrightarrow>
      snd m = JString [] \<or> snd m = JNull"
    and run: "decode_object response_fields response_store kvs s = Inr s'"
    and start: "response_Error s = []"
  shows "response_Error s' = []"
proof (rule decode_object_pres [OF run, where P = "\<lambda>s. response_Error s = []"])
  show "response_Error s = []" by (rule start)
next
  fix k v f t t'
  assume kv: "(k, v) \<in> set kvs" and mf: "match_field response_fields k = Some f"
    and st: "response_store f v t = Inr t'" and inv: "response_Error t = []"
  from keys kv mf have "f = ''error'' \<longrightarrow> v = JString [] \<or> v = JNull" by force
  with response_store_error [OF match_field_in [OF mf] st] inv
  show "response_Error t' = []" by auto
qed

lemma Result_error_kept:
  assumes "\<forall>m \<in> set kvs. match_field result_fields (fst m) = Some ''error'' \<longrightarrow>
      snd m = JString [] \<or> snd m = JNull"
  shows "Result_Error (fst (Result_UnmarshalJSON q (Some (JObject kvs)))) = Result_Error q"
proof (cases "decode_object result_fields result_store kvs zero_result")
  case (Inl e)
  then show ?thesis by (simp add: Result_UnmarshalJSON_def json_Unmarshal_def)
next
  case (Inr s')
  from result_error_stays_empty [OF assms Inr] have "result_Error s' = []"
    by (simp add: zero_result_def)
  with Inr show ?thesis by (simp add: Result_UnmarshalJSON_def json_Unmarshal_def)
qed

lemma Response_error_kept:
  assumes "\<forall>m \<in> set kvs. match_field response_fields (fst m) = Some ''error'' \<longrightarrow>
      snd m = JString [] \<or> snd m = JNull"
  shows "Response_Error (fst (Response_UnmarshalJSON r (Some (JObject kvs)))) = Response_Error r"
proof (cases "decode_object response_fields response_store kvs zero_response")
  case (Inl e)
  then show ?thesis by (simp add: Response_UnmarshalJSON_def json_Unmarshal_def)
next
  case (Inr s')
  from response_error_stays_empty [OF assms Inr] have "response_Error s' = []"
    by (simp add: zero_response_def)
  with Inr show ?thesis by (simp add: Response_UnmarshalJSON_def json_Unmarshal_def)
qed

lemma result_error_last:
  assumes run: "decode_object result_fields result_store (pre @ (k, JString code) # post) s = Inr s'"
    and k: "match_field result_fields k = Some ''error''"
    and post: "\<forall>m \<in> set post. match_field result_fields (fst m) \<noteq> Some ''error''"
  shows "result_Error s' = code"
proof -
  from run obtain s1 where
    s1: "decode_object result_fields result_store ((k, JString code) # post) s1 = Inr s'"
    by (auto simp: decode_object_append split: sum.splits)
  with k obtain s2 where s2: "result_store ''error'' (JString code) s1 = Inr s2"
    and rest: "decode_object result_fields result_store post s2 = Inr s'"
    by (auto split: sum.splits)
  from result_store_error [OF _ s2] have c: "result_Error s2 = code"
    by (simp add: result_fields_def)
  show ?thesis
  proof (rule decode_object_pres [OF rest, where P = "\<lambda>s. result_Error s = code"])
    show "result_Error s2 = code" by (rule c)
  next
    fix k' v f t t'
    assume kv: "(k', v) \<in> set post" and mf: "match_field result_fields k' = Some f"
      and st: "result_store f v t = Inr t'" and inv: "result_Error t = code"
    from post kv mf have "f \<noteq> ''error''" by force
    with result_store_error [OF match_field_in [OF mf] st] inv
    show "result_Error t' = code" by simp
  qed
qed

lemma response_error_last:
  assumes run: "decode_object response_fields response_store (pre @ (k, JString code) # post) s
      = Inr s'"
    and k: "match_field response_fields k = Some ''error''"
    and post: "\<forall>m \<in> set post. match_field response_fields (fst m) \<noteq> Some ''error''"
  shows "response_Error s' = code"
proof -
  from run obtain s1 where
    s1: "decode_object response_fields response_store ((k, JString code) # post) s1 = Inr s'"
    by (auto simp: decode_object_append split: sum.splits)
  with k obtain s2 where s2: "response_store ''error'' (JString code) s1 = Inr s2"
    and rest: "decode_object response_fields response_store post s2 = Inr s'"
    by (auto split: sum.splits)
  from response_store_error [OF _ s2] have c: "response_Error s2 = code"
    by (simp add: response_fields_def)
  show ?thesis
  proof (rule decode_object_pres [OF rest, where P = "\<lambda>s. response_Error s = code"])
    show "response_Error s2 = code" by (rule c)
  next
    fix k' v f t t'
    assume kv: "(k', v) \<in> set post" and mf: "match_field response_fields k' = Some f"
      and st: "response_store f v t = Inr t'" and inv: "response_Error t = code"
    from post kv mf have "f \<noteq> ''error''" by force
    with response_store_error [OF match_field_in [OF mf] st] inv
    show "response_Error t' = code" by simp
  qed
qed

lemma Result_error_classified:
  assumes ok: "snd (Result_UnmarshalJSON q (Some (JObject (pre @ (k, JString code) # post)))) = None"
    and k: "match_field result_fields k = Some ''error''"
    and post: "\<forall>m \<in> set post. match_field result_fields (fst m) \<noteq> Some ''error''"
    and ne: "code \<noteq> []"
  shows "Result_Error (fst (Result_UnmarshalJSON q
      (Some (JObject (pre @ (k, JString code) # post))))) = Some (classify code)"
proof (cases "decode_object result_fields result_store (pre @ (k, JString code) # post)
    zero_result")
  case (Inl e)
  with ok show ?thesis by (simp add: Result_UnmarshalJSON_def json_Unmarshal_def)
next
  case (Inr s')
  from result_error_last [OF Inr k post] have "result_Error s' = code" .
  with Inr ne show ?thesis by (simp add: Result_UnmarshalJSON_def json_Unmarshal_def)
qed

lemma Response_error_classified:
  assumes ok: "snd (Response_UnmarshalJSON r (Some (JObject (pre @ (k, JString code) # post))))
      = None"
    and k: "match_field response_fields k = Some ''error''"
    and post: "\<forall>m \<in> set post. match_field response_fields (fst m) \<noteq> Some ''error''"
    and ne: "code \<noteq> []"
  shows "Response_Error (fst (Response_UnmarshalJSON r
      (Some (JObject (pre @ (k, JString code) # post))))) = Some (classify code)"
proof (cases "decode_object response_fields response_store (pre @ (k, JString code) # post)
    zero_response")
  case (Inl e)
  with ok show ?thesis by (simp add: Response_UnmarshalJSON_def json_Unmarshal_def)
next
  case (Inr s')
  from response_error_last [OF Inr k post] have "response_Error s' = code" .
  with Inr ne show ?thesis by (simp add: Response_UnmarshalJSON_def json_Unmarshal_def)
qed

subsection \<open>The results array\<close>

lemma decode_Result_Inr:
  "decode_Result r v = Inr y \<Longrightarrow> y = fst (Result_UnmarshalJSON r (Some v))"
  by (cases "Result_UnmarshalJSON r (Some v)") (auto simp: decode_Result_def split: option.splits)

lemma decode_elems_fresh_Result:
  "decode_elems decode_Result zero_Result [] vs = Inr ys \<Longrightarrow>
     ys = map (\<lambda>v. fst (Result_UnmarshalJSON zero_Result (Some v))) vs"
proof (induction vs arbitrary: ys)
  case Nil
  then show ?case by simp
next
  case (Cons v vs)
  from Cons.prems obtain y ys' where y: "decode_Result zero_Result v = Inr y"
    and rest: "decode_elems decode_Result zero_Result [] vs = Inr ys'" and ys: "ys = y # ys'"
    by (auto split: sum.splits)
  from Cons.IH [OF rest] decode_Result_Inr [OF y] ys show ?case by simp
qed

lemma response_store_results:
  assumes "f \<in> set response_fields" and "f \<noteq> ''results''"
    and "response_store f v s = Inr s'"
  shows "response_Results s' = response_Results s"
  using assms unfolding response_store_def response_fields_def
  by (auto split: if_splits dest!: map_sum_Inr)

lemma results_kept:
  assumes run: "decode_object response_fields response_store kvs s = Inr s'"
    and keys: "\<forall>m \<in> set kvs. match_field response_fields (fst m) \<noteq> Some ''results''"
  shows "response_Results s' = response_Results s"
proof (rule decode_object_pres [OF run, where P = "\<lambda>t. response_Results t = response_Results s"])
  show "response_Results s = response_Results s" by simp
next
  fix k v f t t'
  assume kv: "(k, v) \<in> set kvs" and mf: "match_field response_fields k = Some f"
    and st: "response_store f v t = Inr t'" and inv: "response_Results t = response_Results s"
  from keys kv mf have "f \<noteq> ''results''" by force
  from response_store_results [OF match_field_in [OF mf] this st] inv
  show "response_Results t' = response_Results s" by simp
qed

lemma results_in_order:
  assumes wt: "response_well_typed (JObject (pre @ (k, JArray vs) # post))"
    and k: "match_field response_fields k = Some ''results''"
    and pre: "\<forall>m \<in> set pre. match_field response_fields (fst m) \<noteq> Some ''results''"
    and post: "\<forall>m \<in> set post. match_field response_fields (fst m) \<noteq> Some ''results''"
  shows "snd (Response_UnmarshalJSON r (Some (JObject (pre @ (k, JArray vs) # post)))) = None
    \<and> elems (Response_Results (fst (Response_UnmarshalJSON r
          (Some (JObject (pre @ (k, JArray vs) # post)))))) =
        map (\<lambda>v. fst (Result_UnmarshalJSON zero_Result (Some v))) vs"
proof -
  let ?kvs = "pre @ (k, JArray vs) # post"
  from wt Response_UnmarshalJSON_fails_iff [of r "Some (JObject ?kvs)"]
  have ok: "snd (Response_UnmarshalJSON r (Some (JObject ?kvs))) = None" by simp
  from wt json_Unmarshal_response_isl [of "Some (JObject ?kvs)" zero_response]
  obtain s' where s': "decode_object response_fields response_store ?kvs zero_response = Inr s'"
    by (cases "decode_object response_fields response_store ?kvs zero_response")
       (simp_all add: json_Unmarshal_def)
  then obtain s1 where s1: "decode_object response_fields response_store pre zero_response = Inr s1"
    and r1: "decode_object response_fields response_store ((k, JArray vs) # post) s1 = Inr s'"
    by (auto simp: decode_object_append split: sum.splits)
  from r1 k obtain s2 where s2: "response_store ''results'' (JArray vs) s1 = Inr s2"
    and r2: "decode_object response_fields response_store post s2 = Inr s'"
    by (auto split: sum.splits)
  from results_kept [OF s1 pre] have "response_Results s1 = NilSlice"
    by (simp add: zero_response_def)
  with s2 obtain sl where sl: "decode_slice decode_Result zero_Result NilSlice (JArray vs) = Inr sl"
    and s2r: "response_Results s2 = sl"
    by (auto simp: response_store_def dest!: map_sum_Inr)
  from sl obtain ys where ys: "decode_elems decode_Result zero_Result [] vs = Inr ys"
    and sle: "elems sl = ys"
    by (auto simp: decode_slice_def split: sum.splits if_splits)
  from results_kept [OF r2 post] s2r sle decode_elems_fresh_Result [OF ys]
  have "elems (response_Results s') =
      map (\<lambda>v. fst (Result_UnmarshalJSON zero_Result (Some v))) vs"
    by simp
  with s' have "elems (Response_Results (fst (Response_UnmarshalJSON r (Some (JObject ?kvs))))) =
      map (\<lambda>v. fst (Result_UnmarshalJSON zero_Result (Some v))) vs"
    by (simp add: Response_UnmarshalJSON_def json_Unmarshal_def Let_def)
  with ok show ?thesis by simp
qed

lemma decode_message_member:
  "Result_UnmarshalJSON q (Some (JObject [(''message_id'', JString mid)])) =
     (q\<lparr>Result_MessageID := mid, Result_RegistrationID := []\<rparr>, None)"
proof -
  have "json_Unmarshal result_fields result_store
      (Some (JObject [(''message_id'', JString mid)])) zero_result =
    Inr (zero_result\<lparr>result_MessageID := mid\<rparr>)"
    by (simp add: json_Unmarshal_def match_result_fields result_store_def decode_string_def)
  then show ?thesis
    unfolding Result_UnmarshalJSON_def by (simp add: zero_result_def)
qed

subsection \<open>The empty object and members that give zero\<close>

lemma Response_UnmarshalJSON_empty_any:
  "Response_UnmarshalJSON r (Some (JObject [])) =
     (\<lparr>Response_MulticastID = 0, Response_Success = 0, Response_Failure = 0,
        Response_CanonicalIDs = 0, Response_Results = NilSlice,
        Response_FailedRegistrationIDs = NilSlice, Response_MessageID = 0,
        Response_Error = Response_Error r\<rparr>, None)"
  by (cases r) (simp add: Response_UnmarshalJSON_def json_Unmarshal_def zero_response_def)

lemma response_store_keeps_MulticastID:
  assumes "f \<in> set response_fields" and "f \<noteq> ''multicast_id''"
    and "response_store f v s = Inr s'"
  shows "response_MulticastID s' = response_MulticastID s"
  using assms unfolding response_store_def response_fields_def
  by (auto split: if_splits dest!: map_sum_Inr)

lemma response_store_keeps_Success:
  assumes "f \<in> set response_fields" and "f \<noteq> ''success''"
    and "response_store f v s = Inr s'"
  shows "response_Success s' = response_Success s"
  using assms unfolding response_store_def response_fields_def
  by (auto split: if_splits dest!: map_sum_Inr)

lemma response_store_keeps_Failure:
  assumes "f \<in> set response_fields" and "f \<noteq> ''failure''"
    and "response_store f v s = Inr s'"
  shows "response_Failure s' = response_Failure s"
  using assms unfolding response_store_def response_fields_def
  by (auto split: if_splits dest!: map_sum_Inr)

lemma response_store_keeps_CanonicalIDs:
  assumes "f \<in> set response_fields" and "f \<noteq> ''canonical_ids''"
    and "response_store f v s = Inr s'"
  shows "response_CanonicalIDs s' = response_CanonicalIDs s"
  using assms unfolding response_store_def response_fields_def
  by (auto split: if_splits dest!: map_sum_Inr)

lemma response_store_keeps_MessageID:
  assumes "f \<in> set response_fields" and "f \<noteq> ''message_id''"
    and "response_store f v s = Inr s'"
  shows "response_MessageID s' = response_MessageID s"
  using assms unfolding response_store_def response_fields_def
  by (auto split: if_splits dest!: map_sum_Inr)

lemma response_store_zero_again:
  "response_MulticastID s = 0 \<Longrightarrow> response_store ''multicast_id'' (JInt 0) s = Inr s"
  "response_Success s = 0 \<Longrightarrow> response_store ''success'' (JInt 0) s = Inr s"
  "response_Failure s = 0 \<Longrightarrow> response_store ''failure'' (JInt 0) s = Inr s"
  "response_CanonicalIDs s = 0 \<Longrightarrow> response_store ''canonical_ids'' (JInt 0) s = Inr s"
  "response_MessageID s = 0 \<Longrightarrow> response_store ''message_id'' (JInt 0) s = Inr s"
  by (simp_all add: response_store_def decode_int_def)

lemma zero_member_no_effect:
  fixes proj :: "response_struct \<Rightarrow> 64 word"
  assumes k: "match_field response_fields k = Some g"
    and keys: "\<forall>m \<in> set pre. match_field response_fields (fst m) \<noteq> Some g"
    and start: "proj zero_response = 0"
    and keep: "\<And>f v t t'. f \<in> set response_fields \<Longrightarrow> f \<noteq> g \<Longrightarrow>
      response_store f v t = Inr t' \<Longrightarrow> proj t' = proj t"
    and again: "\<And>t. proj t = 0 \<Longrightarrow> response_store g (JInt 0) t = Inr t"
  shows "Response_UnmarshalJSON r (Some (JObject (pre @ (k, JInt 0) # post))) =
    Response_UnmarshalJSON r (Some (JObject (pre @ post)))"
proof -
  have "decode_object response_fields response_store (pre @ (k, JInt 0) # post) zero_response =
    decode_object response_fields response_store (pre @ post) zero_response"
  proof (cases "decode_object response_fields response_store pre zero_response")
    case (Inl e)
    then show ?thesis by (simp add: decode_object_append)
  next
    case (Inr s1)
    have "proj s1 = 0"
    proof (rule decode_object_pres [OF Inr, where P = "\<lambda>t. proj t = 0"])
      show "proj zero_response = 0" by (rule start)
    next
      fix k' v f t t'
      assume kv: "(k', v) \<in> set pre" and mf: "match_field response_fields k' = Some f"
        and st: "response_store f v t = Inr t'" and inv: "proj t = 0"
      from keys kv mf have "f \<noteq> g" by force
      from keep [OF match_field_in [OF mf] this st] inv show "proj t' = 0" by simp
    qed
    then have "response_store g (JInt 0) s1 = Inr s1" by (rule again)
    with Inr k show ?thesis by (simp add: decode_object_append)
  qed
  then show ?thesis by (simp add: Response_UnmarshalJSON_def json_Unmarshal_def)
qed

lemma zero_member_anywhere:
  assumes k: "match_field response_fields k = Some g"
    and g: "g \<in> set int_fields"
    and keys: "\<forall>m \<in> set pre. match_field response_fields (fst m) \<noteq> Some g"
  shows "Response_UnmarshalJSON r (Some (JObject (pre @ (k, JInt 0) # post))) =
    Response_UnmarshalJSON r (Some (JObject (pre @ post)))"
proof -
  from g have "g = ''multicast_id'' \<or> g = ''success'' \<or> g = ''failure''
      \<or> g = ''canonical_ids'' \<or> g = ''message_id''"
    unfolding int_fields_def by (simp only: list.set insert_iff empty_iff simp_thms)
  then show ?thesis
  proof (elim disjE)
    assume e: "g = ''multicast_id''"
    show ?thesis
      by (rule zero_member_no_effect [OF k keys, where proj = response_MulticastID])
         (simp_all add: e zero_response_def response_store_keeps_MulticastID
           response_store_zero_again)
  next
    assume e: "g = ''success''"
    show ?thesis
      by (rule zero_member_no_effect [OF k keys, where proj = response_Success])
         (simp_all add: e zero_response_def response_store_keeps_Success
           response_store_zero_again)
  next
    assume e: "g = ''failure''"
    show ?thesis
      by (rule zero_member_no_effect [OF k keys, where proj = response_Failure])
         (simp_all add: e zero_response_def response_store_keeps_Failure
           response_store_zero_again)
  next
    assume e: "g = ''canonical_ids''"
    show ?thesis
      by (rule zero_member_no_effect [OF k keys, where proj = response_CanonicalIDs])
         (simp_all add: e zero_response_def response_store_keeps_CanonicalIDs
           response_store_zero_again)
  next
    assume e: "g = ''message_id''"
    show ?thesis
      by (rule zero_member_no_effect [OF k keys, where proj = response_MessageID])
         (simp_all add: e zero_response_def response_store_keeps_MessageID
           response_store_zero_again)
  qed
qed

lemma match_folded_failure: "match_field response_fields ''Failure'' = Some ''failure''"
  by code_simp

section \<open>The claims\<close>

text \<open>
  Claim C1. Each of the fourteen codes of the table is classified as its own error value,
  the fifteen error values of the package are pairwise different, and every non-empty code
  outside the table is classified as \<open>ErrUnknown\<close>; classifying is a total function, and
  a result object that carries such a code decodes without a decode error, its error being
  \<open>ErrUnknown\<close>.
\<close>

theorem C1_classify_table:
  "classify ''MissingRegistration'' = ErrMissingRegistration
   \<and> classify ''InvalidRegistration'' = ErrInvalidRegistration
   \<and> classify ''NotRegistered'' = ErrNotRegistered
   \<and> classify ''InvalidPackageName'' = ErrInvalidPackageName
   \<and> classify ''MismatchSenderId'' = ErrMismatchSenderID
   \<and> classify ''MessageTooBig'' = ErrMessageTooBig
   \<and> classify ''InvalidDataKey'' = ErrInvalidDataKey
   \<and> classify ''InvalidTtl'' = ErrInvalidTTL
   \<and> classify ''Unavailable'' = ErrUnavailable
   \<and> classify ''InternalServerError'' = ErrInternalServerError
   \<and> classify ''DeviceMessageRateExceeded'' = ErrDeviceMessageRateExceeded
   \<and> classify ''TopicsMessageRateExceeded'' = ErrTopicsMessageRateExceeded
   \<and> classify ''InvalidParameters'' = ErrInvalidParameters
   \<and> classify ''InvalidApnsCredential'' = ErrInvalidApnsCredential
   \<and> distinct [ErrMissingRegistration, ErrInvalidRegistration, ErrNotRegistered,
        ErrInvalidPackageName, ErrMismatchSenderID, ErrMessageTooBig, ErrInvalidDataKey,
        ErrInvalidTTL, ErrUnavailable, ErrInternalServerError, ErrDeviceMessageRateExceeded,
        ErrTopicsMessageRateExceeded, ErrInvalidParameters, ErrInvalidApnsCredential, ErrUnknown]
   \<and> (\<forall>code. code \<noteq> [] \<and> code \<notin> set known_codes
        \<longrightarrow> classify code = ErrUnknown
            \<and> Result_UnmarshalJSON zero_Result (Some (JObject [(''error'', JString code)])) =
                (zero_Result\<lparr>Result_Error := Some ErrUnknown\<rparr>, None))"
proof -
  have dist: "distinct [ErrMissingRegistration, ErrInvalidRegistration, ErrNotRegistered,
        ErrInvalidPackageName, ErrMismatchSenderID, ErrMessageTooBig, ErrInvalidDataKey,
        ErrInvalidTTL, ErrUnavailable, ErrInternalServerError, ErrDeviceMessageRateExceeded,
        ErrTopicsMessageRateExceeded, ErrInvalidParameters, ErrInvalidApnsCredential, ErrUnknown]"
    by (simp add: err_defs)
  have other: "\<forall>code. code \<noteq> [] \<and> code \<notin> set known_codes
        \<longrightarrow> classify code = ErrUnknown
            \<and> Result_UnmarshalJSON zero_Result (Some (JObject [(''error'', JString code)])) =
                (zero_Result\<lparr>Result_Error := Some ErrUnknown\<rparr>, None)"
  proof (intro allI impI)
    fix code :: string
    assume h: "code \<noteq> [] \<and> code \<notin> set known_codes"
    then have c: "classify code = ErrUnknown" by (simp add: classify_other)
    with h show "classify code = ErrUnknown
            \<and> Result_UnmarshalJSON zero_Result (Some (JObject [(''error'', JString code)])) =
                (zero_Result\<lparr>Result_Error := Some ErrUnknown\<rparr>, None)"
      by (simp add: decode_error_member zero_Result_def)
  qed
  show ?thesis
    by (intro conjI classify_known dist other)
qed

text \<open>Claim C1 at the code \<open>QuotaExceeded\<close>, which the table does not have.\<close>

theorem C1_classify_table_witness:
  "classify ''QuotaExceeded'' = ErrUnknown
   \<and> Result_UnmarshalJSON zero_Result (Some (JObject [(''error'', JString ''QuotaExceeded'')])) =
       (zero_Result\<lparr>Result_Error := Some ErrUnknown\<rparr>, None)"
proof -
  have h: "''QuotaExceeded'' \<noteq> [] \<and> ''QuotaExceeded'' \<notin> set known_codes"
    by (simp add: known_codes_def)
  from C1_classify_table
  have "\<forall>code. code \<noteq> [] \<and> code \<notin> set known_codes
        \<longrightarrow> classify code = ErrUnknown
            \<and> Result_UnmarshalJSON zero_Result (Some (JObject [(''error'', JString code)])) =
                (zero_Result\<lparr>Result_Error := Some ErrUnknown\<rparr>, None)"
    by (elim conjE)
  then have "''QuotaExceeded'' \<noteq> [] \<and> ''QuotaExceeded'' \<notin> set known_codes
        \<longrightarrow> classify ''QuotaExceeded'' = ErrUnknown
            \<and> Result_UnmarshalJSON zero_Result
                (Some (JObject [(''error'', JString ''QuotaExceeded'')])) =
                (zero_Result\<lparr>Result_Error := Some ErrUnknown\<rparr>, None)"
    by (rule spec)
  from this h show ?thesis by (rule mp)
qed

text \<open>
  Claim C2. \<open>Unregistered\<close> holds exactly when the result's error is one of
  \<open>ErrNotRegistered\<close>, \<open>ErrMismatchSenderID\<close>, \<open>ErrMissingRegistration\<close>,
  \<open>ErrInvalidRegistration\<close>: it is false with no error, with \<open>ErrUnknown\<close> and with
  each of the other eleven values, and on a result decoded from an object with the error code
  \<open>code\<close> it holds exactly for the four codes of these values.
\<close>

theorem C2_unregistered:
  "(Unregistered r \<longleftrightarrow>
      Result_Error r \<in> {Some ErrNotRegistered, Some ErrMismatchSenderID,
        Some ErrMissingRegistration, Some ErrInvalidRegistration})
   \<and> \<not> Unregistered (r\<lparr>Result_Error := None\<rparr>)
   \<and> \<not> Unregistered (r\<lparr>Result_Error := Some ErrUnknown\<rparr>)
   \<and> \<not> Unregistered (r\<lparr>Result_Error := Some ErrInvalidPackageName\<rparr>)
   \<and> \<not> Unregistered (r\<lparr>Result_Error := Some ErrMessageTooBig\<rparr>)
   \<and> \<not> Unregistered (r\<lparr>Result_Error := Some ErrInvalidDataKey\<rparr>)
   \<and> \<not> Unregistered (r\<lparr>Result_Error := Some ErrInvalidTTL\<rparr>)
   \<and> \<not> Unregistered (r\<lparr>Result_Error := Some ErrUnavailable\<rparr>)
   \<and> \<not> Unregistered (r\<lparr>Result_Error := Some ErrInternalServerError\<rparr>)
   \<and> \<not> Unregistered (r\<lparr>Result_Error := Some ErrDeviceMessageRateExceeded\<rparr>)
   \<and> \<not> Unregistered (r\<lparr>Result_Error := Some ErrTopicsMessageRateExceeded\<rparr>)
   \<and> \<not> Unregistered (r\<lparr>Result_Error := Some ErrInvalidParameters\<rparr>)
   \<and> \<not> Unregistered (r\<lparr>Result_Error := Some ErrInvalidApnsCredential\<rparr>)
   \<and> (Unregistered (fst (Result_UnmarshalJSON zero_Result
          (Some (JObject [(''error'', JString code)])))) \<longleftrightarrow>
        code \<in> {''NotRegistered'', ''MismatchSenderId'', ''MissingRegistration'',
          ''InvalidRegistration''})"
proof -
  have a: "Unregistered r \<longleftrightarrow>
      Result_Error r \<in> {Some ErrNotRegistered, Some ErrMismatchSenderID,
        Some ErrMissingRegistration, Some ErrInvalidRegistration}"
    by (simp add: Unregistered_def)
  have b: "\<not> Unregistered (r\<lparr>Result_Error := None\<rparr>)"
    "\<not> Unregistered (r\<lparr>Result_Error := Some ErrUnknown\<rparr>)"
    "\<not> Unregistered (r\<lparr>Result_Error := Some ErrInvalidPackageName\<rparr>)"
    "\<not> Unregistered (r\<lparr>Result_Error := Some ErrMessageTooBig\<rparr>)"
    "\<not> Unregistered (r\<lparr>Result_Error := Some ErrInvalidDataKey\<rparr>)"
    "\<not> Unregistered (r\<lparr>Result_Error := Some ErrInvalidTTL\<rparr>)"
    "\<not> Unregistered (r\<lparr>Result_Error := Some ErrUnavailable\<rparr>)"
    "\<not> Unregistered (r\<lparr>Result_Error := Some ErrInternalServerError\<rparr>)"
    "\<not> Unregistered (r\<lparr>Result_Error := Some ErrDeviceMessageRateExceeded\<rparr>)"
    "\<not> Unregistered (r\<lparr>Result_Error := Some ErrTopicsMessageRateExceeded\<rparr>)"
    "\<not> Unregistered (r\<lparr>Result_Error := Some ErrInvalidParameters\<rparr>)"
    "\<not> Unregistered (r\<lparr>Result_Error := Some ErrInvalidApnsCredential\<rparr>)"
    by (simp_all add: Unregistered_def err_defs)
  have c: "Unregistered (fst (Result_UnmarshalJSON zero_Result
          (Some (JObject [(''error'', JString code)])))) \<longleftrightarrow>
        code \<in> {''NotRegistered'', ''MismatchSenderId'', ''MissingRegistration'',
          ''InvalidRegistration''}"
  proof (cases "code = []")
    case True
    then show ?thesis
      unfolding decode_error_member by (simp add: Unregistered_def zero_Result_def)
  next
    case False
    then show ?thesis
      unfolding decode_error_member using unregistered_classify [of code]
      by simp
  qed
  show ?thesis
    by (intro conjI a b c)
qed

text \<open>
  Claim C3. The value classified from \<open>Unavailable\<close> is temporary and a timeout, the one
  from \<open>InternalServerError\<close> is temporary and no timeout, and the value classified from
  any other code, \<open>ErrUnknown\<close> included, has neither method.
\<close>

theorem C3_retry_flags:
  "Temporary (classify ''Unavailable'') = Some True
   \<and> Timeout (classify ''Unavailable'') = Some True
   \<and> Temporary (classify ''InternalServerError'') = Some True
   \<and> Timeout (classify ''InternalServerError'') = Some False
   \<and> Temporary ErrUnknown = None \<and> Timeout ErrUnknown = None
   \<and> (\<forall>code. code \<noteq> ''Unavailable'' \<and> code \<noteq> ''InternalServerError''
        \<longrightarrow> Temporary (classify code) = None \<and> Timeout (classify code) = None)"
proof -
  have a: "Temporary (classify ''Unavailable'') = Some True"
    "Timeout (classify ''Unavailable'') = Some True"
    "Temporary (classify ''InternalServerError'') = Some True"
    "Timeout (classify ''InternalServerError'') = Some False"
    "Temporary ErrUnknown = None" "Timeout ErrUnknown = None"
    by (simp_all add: classify_known err_defs)
  have b: "\<forall>code. code \<noteq> ''Unavailable'' \<and> code \<noteq> ''InternalServerError''
        \<longrightarrow> Temporary (classify code) = None \<and> Timeout (classify code) = None"
  proof (intro allI impI)
    fix code :: string
    assume h: "code \<noteq> ''Unavailable'' \<and> code \<noteq> ''InternalServerError''"
    show "Temporary (classify code) = None \<and> Timeout (classify code) = None"
    proof (cases "code \<in> set known_codes")
      case True
      then have "code \<noteq> ''Unavailable'' \<and> code \<noteq> ''InternalServerError''
          \<longrightarrow> Temporary (classify code) = None \<and> Timeout (classify code) = None"
        by (rule known_codes_cases) (simp_all add: classify_known err_defs)
      from this h show ?thesis by (rule mp)
    next
      case False
      then show ?thesis by (simp add: classify_other err_defs)
    qed
  qed
  show ?thesis
    by (intro conjI a b)
qed

text \<open>Claim C3 at the code \<open>MessageTooBig\<close>.\<close>

theorem C3_retry_flags_witness:
  "Temporary (classify ''MessageTooBig'') = None \<and> Timeout (classify ''MessageTooBig'') = None"
proof -
  have h: "''MessageTooBig'' \<noteq> ''Unavailable'' \<and> ''MessageTooBig'' \<noteq> ''InternalServerError''"
    by simp
  from C3_retry_flags
  have "\<forall>code. code \<noteq> ''Unavailable'' \<and> code \<noteq> ''InternalServerError''
        \<longrightarrow> Temporary (classify code) = None \<and> Timeout (classify code) = None"
    by (elim conjE)
  then have "''MessageTooBig'' \<noteq> ''Unavailable'' \<and> ''MessageTooBig'' \<noteq> ''InternalServerError''
        \<longrightarrow> Temporary (classify ''MessageTooBig'') = None
            \<and> Timeout (classify ''MessageTooBig'') = None"
    by (rule spec)
  from this h show ?thesis by (rule mp)
qed

text \<open>
  Claim C4. For a well typed payload with one member that selects \<open>results\<close>, an array
  \<open>vs\<close> (of result objects that are well typed, the payload being so), decoding succeeds
  and the results of the Response are, in the order of the array and as many, what each element
  decodes to by \<open>Result.UnmarshalJSON\<close> on a fresh Result.
\<close>

theorem C4_results_in_order:
  "response_well_typed (JObject (pre @ (k, JArray vs) # post))
   \<and> match_field response_fields k = Some ''results''
   \<and> (\<forall>m \<in> set pre. match_field response_fields (fst m) \<noteq> Some ''results'')
   \<and> (\<forall>m \<in> set post. match_field response_fields (fst m) \<noteq> Some ''results'')
   \<longrightarrow>
     snd (Response_UnmarshalJSON r (Some (JObject (pre @ (k, JArray vs) # post)))) = None
     \<and> length (elems (Response_Results (fst (Response_UnmarshalJSON r
          (Some (JObject (pre @ (k, JArray vs) # post))))))) = length vs
     \<and> elems (Response_Results (fst (Response_UnmarshalJSON r
          (Some (JObject (pre @ (k, JArray vs) # post)))))) =
        map (\<lambda>v. fst (Result_UnmarshalJSON zero_Result (Some v))) vs"
proof
  assume h: "response_well_typed (JObject (pre @ (k, JArray vs) # post))
   \<and> match_field response_fields k = Some ''results''
   \<and> (\<forall>m \<in> set pre. match_field response_fields (fst m) \<noteq> Some ''results'')
   \<and> (\<forall>m \<in> set post. match_field response_fields (fst m) \<noteq> Some ''results'')"
  then have "snd (Response_UnmarshalJSON r (Some (JObject (pre @ (k, JArray vs) # post)))) = None
    \<and> elems (Response_Results (fst (Response_UnmarshalJSON r
          (Some (JObject (pre @ (k, JArray vs) # post)))))) =
        map (\<lambda>v. fst (Result_UnmarshalJSON zero_Result (Some v))) vs"
    by (intro results_in_order) simp_all
  then show "snd (Response_UnmarshalJSON r (Some (JObject (pre @ (k, JArray vs) # post)))) = None
     \<and> length (elems (Response_Results (fst (Response_UnmarshalJSON r
          (Some (JObject (pre @ (k, JArray vs) # post))))))) = length vs
     \<and> elems (Response_Results (fst (Response_UnmarshalJSON r
          (Some (JObject (pre @ (k, JArray vs) # post)))))) =
        map (\<lambda>v. fst (Result_UnmarshalJSON zero_Result (Some v))) vs"
    by simp
qed

text \<open>Claim C4 at an array of three results between two other members.\<close>

theorem C4_results_in_order_witness:
  "snd (Response_UnmarshalJSON zero_Response
      (Some (JObject ([(''success'', JInt 1)] @
        (''results'', JArray [JObject [(''message_id'', JString ''1:abc'')],
           JObject [(''error'', JString ''NotRegistered'')],
           JObject [(''error'', JString ''MessageTooBig'')]]) # [(''failure'', JInt 2)])))) = None
   \<and> elems (Response_Results (fst (Response_UnmarshalJSON zero_Response
      (Some (JObject ([(''success'', JInt 1)] @
        (''results'', JArray [JObject [(''message_id'', JString ''1:abc'')],
           JObject [(''error'', JString ''NotRegistered'')],
           JObject [(''error'', JString ''MessageTooBig'')]]) # [(''failure'', JInt 2)])))))) =
     [zero_Result\<lparr>Result_MessageID := ''1:abc''\<rparr>,
      zero_Result\<lparr>Result_Error := Some ErrNotRegistered\<rparr>,
      zero_Result\<lparr>Result_Error := Some ErrMessageTooBig\<rparr>]"
proof -
  let ?vs = "[JObject [(''message_id'', JString ''1:abc'')],
           JObject [(''error'', JString ''NotRegistered'')],
           JObject [(''error'', JString ''MessageTooBig'')]]"
  have h: "response_well_typed (JObject ([(''success'', JInt 1)] @
        (''results'', JArray ?vs) # [(''failure'', JInt 2)]))
   \<and> match_field response_fields ''results'' = Some ''results''
   \<and> (\<forall>m \<in> set [(''success'', JInt 1)].
        match_field response_fields (fst m) \<noteq> Some ''results'')
   \<and> (\<forall>m \<in> set [(''failure'', JInt 2)].
        match_field response_fields (fst m) \<noteq> Some ''results'')"
    by (simp add: response_member_ok_def response_field_ok_def match_response_fields
        result_member_ok_def match_result_fields)
  have m: "map (\<lambda>v. fst (Result_UnmarshalJSON zero_Result (Some v))) ?vs =
     [zero_Result\<lparr>Result_MessageID := ''1:abc''\<rparr>,
      zero_Result\<lparr>Result_Error := Some ErrNotRegistered\<rparr>,
      zero_Result\<lparr>Result_Error := Some ErrMessageTooBig\<rparr>]"
    by (simp add: decode_message_member decode_error_member classify_known zero_Result_def)
  from C4_results_in_order [of "[(''success'', JInt 1)]" "''results''" ?vs
      "[(''failure'', JInt 2)]" zero_Response, THEN mp, OF h] m
  show ?thesis by simp
qed

text \<open>
  Claim C5. When no member of the payload selects \<open>error\<close>, or each one that does has the
  empty string (or \<open>null\<close>) as its value, the method does not assign the error field: a
  fresh Result or Response has no error (\<open>None\<close>, which is none of the classified values,
  all of the form \<open>Some e\<close>), and a receiver in general keeps the error it had. When the
  last member that selects \<open>error\<close> has a non-empty string and decoding succeeds, the error
  is the classified code.
\<close>

theorem C5_error_left_unset:
  "((\<forall>m \<in> set kvs. match_field result_fields (fst m) = Some ''error'' \<longrightarrow>
        snd m = JString [] \<or> snd m = JNull) \<longrightarrow>
      Result_Error (fst (Result_UnmarshalJSON zero_Result (Some (JObject kvs)))) = None
      \<and> Result_Error (fst (Result_UnmarshalJSON q (Some (JObject kvs)))) = Result_Error q)
   \<and> ((\<forall>m \<in> set kvs. match_field response_fields (fst m) = Some ''error'' \<longrightarrow>
        snd m = JString [] \<or> snd m = JNull) \<longrightarrow>
      Response_Error (fst (Response_UnmarshalJSON zero_Response (Some (JObject kvs)))) = None
      \<and> Response_Error (fst (Response_UnmarshalJSON r (Some (JObject kvs)))) = Response_Error r)
   \<and> (snd (Result_UnmarshalJSON q (Some (JObject (pre @ (k, JString code) # post)))) = None
        \<and> match_field result_fields k = Some ''error''
        \<and> (\<forall>m \<in> set post. match_field result_fields (fst m) \<noteq> Some ''error'')
        \<and> code \<noteq> [] \<longrightarrow>
      Result_Error (fst (Result_UnmarshalJSON q
        (Some (JObject (pre @ (k, JString code) # post))))) = Some (classify code))
   \<and> (snd (Response_UnmarshalJSON r (Some (JObject (pre @ (k, JString code) # post)))) = None
        \<and> match_field response_fields k = Some ''error''
        \<and> (\<forall>m \<in> set post. match_field response_fields (fst m) \<noteq> Some ''error'')
        \<and> code \<noteq> [] \<longrightarrow>
      Response_Error (fst (Response_UnmarshalJSON r
        (Some (JObject (pre @ (k, JString code) # post))))) = Some (classify code))"
proof (intro conjI impI)
  assume h: "\<forall>m \<in> set kvs. match_field result_fields (fst m) = Some ''error'' \<longrightarrow>
        snd m = JString [] \<or> snd m = JNull"
  from Result_error_kept [OF h, of zero_Result]
  show "Result_Error (fst (Result_UnmarshalJSON zero_Result (Some (JObject kvs)))) = None"
    by (simp add: zero_Result_def)
  from Result_error_kept [OF h]
  show "Result_Error (fst (Result_UnmarshalJSON q (Some (JObject kvs)))) = Result_Error q" .
next
  assume h: "\<forall>m \<in> set kvs. match_field response_fields (fst m) = Some ''error'' \<longrightarrow>
        snd m = JString [] \<or> snd m = JNull"
  from Response_error_kept [OF h, of zero_Response]
  show "Response_Error (fst (Response_UnmarshalJSON zero_Response (Some (JObject kvs)))) = None"
    by (simp add: zero_Response_def)
  from Response_error_kept [OF h]
  show "Response_Error (fst (Response_UnmarshalJSON r (Some (JObject kvs)))) = Response_Error r" .
next
  assume "snd (Result_UnmarshalJSON q (Some (JObject (pre @ (k, JString code) # post)))) = None
        \<and> match_field result_fields k = Some ''error''
        \<and> (\<forall>m \<in> set post. match_field result_fields (fst m) \<noteq> Some ''error'')
        \<and> code \<noteq> []"
  then show "Result_Error (fst (Result_UnmarshalJSON q
        (Some (JObject (pre @ (k, JString code) # post))))) = Some (classify code)"
    by (intro Result_error_classified) simp_all
next
  assume "snd (Response_UnmarshalJSON r (Some (JObject (pre @ (k, JString code) # post)))) = None
        \<and> match_field response_fields k = Some ''error''
        \<and> (\<forall>m \<in> set post. match_field response_fields (fst m) \<noteq> Some ''error'')
        \<and> code \<noteq> []"
  then show "Response_Error (fst (Response_UnmarshalJSON r
        (Some (JObject (pre @ (k, JString code) # post))))) = Some (classify code)"
    by (intro Response_error_classified) simp_all
qed

text \<open>
  Claim C5 at a result with an empty error code, a response without an error member, and a
  result and a response with an error code.
\<close>

theorem C5_error_left_unset_witness:
  "Result_Error (fst (Result_UnmarshalJSON zero_Result
      (Some (JObject [(''message_id'', JString ''1:abc''), (''error'', JString [])])))) = None
   \<and> Response_Error (fst (Response_UnmarshalJSON zero_Response
      (Some (JObject [(''message_id'', JInt 42)])))) = None
   \<and> Result_Error (fst (Result_UnmarshalJSON zero_Result
      (Some (JObject ([] @ (''error'', JString ''NotRegistered'') # []))))) =
       Some (classify ''NotRegistered'')
   \<and> Response_Error (fst (Response_UnmarshalJSON zero_Response
      (Some (JObject ([(''message_id'', JInt 42)] @ (''error'', JString ''Unavailable'') # []))))) =
       Some (classify ''Unavailable'')"
proof -
  let ?k1 = "[(''message_id'', JString ''1:abc''), (''error'', JString [])]"
  let ?k2 = "[(''message_id'', JInt 42)]"
  have h1: "\<forall>m \<in> set ?k1. match_field result_fields (fst m) = Some ''error'' \<longrightarrow>
        snd m = JString [] \<or> snd m = JNull"
    by (simp add: match_result_fields)
  have h2: "\<forall>m \<in> set ?k2. match_field response_fields (fst m) = Some ''error'' \<longrightarrow>
        snd m = JString [] \<or> snd m = JNull"
    by (simp add: match_response_fields)
  have h3: "snd (Result_UnmarshalJSON zero_Result
        (Some (JObject ([] @ (''error'', JString ''NotRegistered'') # [])))) = None
      \<and> match_field result_fields ''error'' = Some ''error''
      \<and> (\<forall>m \<in> set []. match_field result_fields (fst m) \<noteq> Some ''error'')
      \<and> ''NotRegistered'' \<noteq> []"
    by (simp add: decode_error_member match_result_fields)
  have "json_Unmarshal response_fields response_store
      (Some (JObject [(''message_id'', JInt 42), (''error'', JString ''Unavailable'')]))
      zero_response =
    Inr (zero_response\<lparr>response_MessageID := 42, response_Error := ''Unavailable''\<rparr>)"
    by (simp add: json_Unmarshal_def match_response_fields response_store_def decode_int_def
        decode_string_def)
  then have h4: "snd (Response_UnmarshalJSON zero_Response
        (Some (JObject (?k2 @ (''error'', JString ''Unavailable'') # [])))) = None
      \<and> match_field response_fields ''error'' = Some ''error''
      \<and> (\<forall>m \<in> set []. match_field response_fields (fst m) \<noteq> Some ''error'')
      \<and> ''Unavailable'' \<noteq> []"
    by (simp add: Response_UnmarshalJSON_def match_response_fields)
  note t1 = C5_error_left_unset [of ?k1 zero_Result zero_Response "[]" "[]" "[]" "[]"]
  note t2 = C5_error_left_unset [of ?k2 zero_Result zero_Response "[]" "[]" "[]" "[]"]
  note t3 = C5_error_left_unset [of "[]" zero_Result zero_Response "[]" "''error''"
      "''NotRegistered''" "[]"]
  note t4 = C5_error_left_unset [of "[]" zero_Result zero_Response ?k2 "''error''"
      "''Unavailable''" "[]"]
  from t1 [THEN conjunct1, THEN mp, OF h1, THEN conjunct1] have a: "Result_Error (fst (Result_UnmarshalJSON zero_Result
      (Some (JObject ?k1)))) = None"
    .
  from t2 [THEN conjunct2, THEN conjunct1, THEN mp, OF h2, THEN conjunct1] have b: "Response_Error (fst (Response_UnmarshalJSON zero_Response
      (Some (JObject ?k2)))) = None"
    .
  from t3 [THEN conjunct2, THEN conjunct2, THEN conjunct1, THEN mp, OF h3] have c: "Result_Error (fst (Result_UnmarshalJSON zero_Result
      (Some (JObject ([] @ (''error'', JString ''NotRegistered'') # []))))) =
       Some (classify ''NotRegistered'')"
    .
  from t4 [THEN conjunct2, THEN conjunct2, THEN conjunct2, THEN mp, OF h4] have d: "Response_Error (fst (Response_UnmarshalJSON zero_Response
      (Some (JObject (?k2 @ (''error'', JString ''Unavailable'') # []))))) =
       Some (classify ''Unavailable'')"
    .
  show ?thesis by (intro conjI a b c d)
qed

text \<open>
  Claim C6. Decoding a Response (and a Result) returns a syntax error exactly when the input
  is no valid JSON, and a type error exactly when the input is JSON that is not well typed
  (some member's value has not the JSON type of the field its key selects); there is no other
  decode error. No rule across fields is checked: a payload with any success count in range
  and any array of well typed results decodes, whatever the array's length, and a result
  object with both a message identifier and an error decodes and keeps both.
\<close>

theorem C6_decode_errors:
  "(snd (Response_UnmarshalJSON r data) = Some SyntaxError \<longleftrightarrow> data = None)
   \<and> (snd (Response_UnmarshalJSON r data) = Some UnmarshalTypeError \<longleftrightarrow>
        (\<exists>v. data = Some v \<and> \<not> response_well_typed v))
   \<and> (snd (Result_UnmarshalJSON q data) = Some SyntaxError \<longleftrightarrow> data = None)
   \<and> (snd (Result_UnmarshalJSON q data) = Some UnmarshalTypeError \<longleftrightarrow>
        (\<exists>v. data = Some v \<and> \<not> result_well_typed v))
   \<and> (int_ok (JInt n) \<and> list_all result_well_typed vs \<longrightarrow>
        snd (Response_UnmarshalJSON r
          (Some (JObject [(''success'', JInt n), (''results'', JArray vs)]))) = None)
   \<and> Result_UnmarshalJSON q
        (Some (JObject [(''message_id'', JString mid), (''error'', JString code)])) =
      (q\<lparr>Result_MessageID := mid, Result_RegistrationID := [],
         Result_Error := (if code = [] then Result_Error q else Some (classify code))\<rparr>, None)"
proof -
  have counts: "int_ok (JInt n) \<and> list_all result_well_typed vs \<longrightarrow>
        snd (Response_UnmarshalJSON r
          (Some (JObject [(''success'', JInt n), (''results'', JArray vs)]))) = None"
  proof
    assume h: "int_ok (JInt n) \<and> list_all result_well_typed vs"
    then have "response_well_typed (JObject [(''success'', JInt n), (''results'', JArray vs)])"
      by (simp add: response_member_ok_def match_response_fields response_field_ok_def)
    with Response_UnmarshalJSON_fails_iff
      [of r "Some (JObject [(''success'', JInt n), (''results'', JArray vs)])"]
    show "snd (Response_UnmarshalJSON r
          (Some (JObject [(''success'', JInt n), (''results'', JArray vs)]))) = None"
      by simp
  qed
  show ?thesis
    by (intro conjI Response_UnmarshalJSON_syntax Response_UnmarshalJSON_type
        Result_UnmarshalJSON_syntax Result_UnmarshalJSON_type counts decode_both_members)
qed

text \<open>Claim C6 at a success count of 5 with one result that has both members.\<close>

theorem C6_decode_errors_witness:
  "snd (Response_UnmarshalJSON zero_Response
     (Some (JObject [(''success'', JInt 5),
        (''results'', JArray [JObject [(''message_id'', JString ''m1''),
           (''error'', JString ''NotRegistered'')]])]))) = None"
proof -
  have h: "int_ok (JInt 5) \<and> list_all result_well_typed
      [JObject [(''message_id'', JString ''m1''), (''error'', JString ''NotRegistered'')]]"
    by (simp add: result_member_ok_def match_result_fields)
  from C6_decode_errors [of zero_Response None zero_Result 5
      "[JObject [(''message_id'', JString ''m1''), (''error'', JString ''NotRegistered'')]]"
      "[]" "[]"]
  have "int_ok (JInt 5) \<and> list_all result_well_typed
      [JObject [(''message_id'', JString ''m1''), (''error'', JString ''NotRegistered'')]] \<longrightarrow>
    snd (Response_UnmarshalJSON zero_Response
     (Some (JObject [(''success'', JInt 5),
        (''results'', JArray [JObject [(''message_id'', JString ''m1''),
           (''error'', JString ''NotRegistered'')]])]))) = None"
    by (elim conjE)
  from this h show ?thesis by (rule mp)
qed

text \<open>
  Claim C7. When \<open>Response.UnmarshalJSON\<close> or \<open>Result.UnmarshalJSON\<close> returns a decode
  error, the receiver is what it was before the call: no field has been assigned.
\<close>

theorem C7_no_partial_value:
  "(snd (Response_UnmarshalJSON r data) \<noteq> None \<longrightarrow> fst (Response_UnmarshalJSON r data) = r)
   \<and> (snd (Result_UnmarshalJSON q data) \<noteq> None \<longrightarrow> fst (Result_UnmarshalJSON q data) = q)"
proof -
  have a: "snd (Response_UnmarshalJSON r data) \<noteq> None \<longrightarrow>
      fst (Response_UnmarshalJSON r data) = r"
    by (cases "json_Unmarshal response_fields response_store data zero_response")
       (simp_all add: Response_UnmarshalJSON_def Let_def)
  have b: "snd (Result_UnmarshalJSON q data) \<noteq> None \<longrightarrow>
      fst (Result_UnmarshalJSON q data) = q"
    by (cases "json_Unmarshal result_fields result_store data zero_result")
       (simp_all add: Result_UnmarshalJSON_def Let_def)
  show ?thesis by (intro conjI a b)
qed

text \<open>
  Claim C7 at a Response that holds values already, for a payload whose second result has
  a number as its error (the multicast identifier and the first result come before it and are
  well typed), and at a Result for bytes that are no JSON.
\<close>

theorem C7_no_partial_value_witness:
  "snd (Response_UnmarshalJSON stale_Response
      (Some (JObject [(''multicast_id'', JInt 7),
         (''results'', JArray [JObject [(''message_id'', JString ''m1'')],
            JObject [(''error'', JInt 5)]])]))) = Some UnmarshalTypeError
   \<and> fst (Response_UnmarshalJSON stale_Response
      (Some (JObject [(''multicast_id'', JInt 7),
         (''results'', JArray [JObject [(''message_id'', JString ''m1'')],
            JObject [(''error'', JInt 5)]])]))) = stale_Response
   \<and> snd (Result_UnmarshalJSON (zero_Result\<lparr>Result_MessageID := ''old''\<rparr>) None) = Some SyntaxError
   \<and> fst (Result_UnmarshalJSON (zero_Result\<lparr>Result_MessageID := ''old''\<rparr>) None) =
       zero_Result\<lparr>Result_MessageID := ''old''\<rparr>"
proof -
  let ?p = "Some (JObject [(''multicast_id'', JInt 7),
         (''results'', JArray [JObject [(''message_id'', JString ''m1'')],
            JObject [(''error'', JInt 5)]])])"
  let ?q = "zero_Result\<lparr>Result_MessageID := ''old''\<rparr>"
  have s1: "snd (Response_UnmarshalJSON stale_Response ?p) = Some UnmarshalTypeError"
    by (rule bad_element)
  have s2: "snd (Result_UnmarshalJSON ?q None) = Some SyntaxError"
    by (simp add: Result_UnmarshalJSON_def json_Unmarshal_def)
  from C7_no_partial_value [of stale_Response ?p ?q] s1
  have f1: "fst (Response_UnmarshalJSON stale_Response ?p) = stale_Response"
    by simp
  from C7_no_partial_value [of stale_Response None ?q] s2
  have f2: "fst (Result_UnmarshalJSON ?q None) = ?q"
    by simp
  show ?thesis by (intro conjI s1 s2 f1 f2)
qed

text \<open>
  Claim C8 fails as stated: the payload
  \<open>{"multicast_id":108,"success":1,"message_id":42}\<close> decodes without error into a
  Response whose multicast group and whose topic group are both populated.
\<close>

theorem C8_both_groups_counterexample:
  "snd (Response_UnmarshalJSON zero_Response
      (Some (JObject [(''multicast_id'', JInt 108), (''success'', JInt 1),
         (''message_id'', JInt 42)]))) = None
   \<and> multicast_populated (fst (Response_UnmarshalJSON zero_Response
      (Some (JObject [(''multicast_id'', JInt 108), (''success'', JInt 1),
         (''message_id'', JInt 42)]))))
   \<and> topic_populated (fst (Response_UnmarshalJSON zero_Response
      (Some (JObject [(''multicast_id'', JInt 108), (''success'', JInt 1),
         (''message_id'', JInt 42)]))))"
proof -
  have "json_Unmarshal response_fields response_store
      (Some (JObject [(''multicast_id'', JInt 108), (''success'', JInt 1),
         (''message_id'', JInt 42)])) zero_response =
    Inr (zero_response\<lparr>response_MulticastID := 108, response_Success := 1,
      response_MessageID := 42\<rparr>)"
    by (simp add: json_Unmarshal_def match_response_fields response_store_def decode_int_def)
  then show ?thesis
    by (simp add: Response_UnmarshalJSON_def zero_response_def zero_Response_def
        multicast_populated_def topic_populated_def)
qed

text \<open>
  Claim C8, amended. A group is populated from the payload's own members only: decoding into a
  fresh Response a payload none of whose keys selects \<open>message_id\<close> or \<open>error\<close> leaves
  the topic group unpopulated, and a payload none of whose keys selects a multicast field
  leaves the multicast group unpopulated. Nothing keeps a payload from having members of both
  groups, and both are populated then.
\<close>

theorem C8_groups_follow_keys:
  "((\<forall>m \<in> set kvs. match_field response_fields (fst m) \<notin> Some ` set topic_fields) \<longrightarrow>
      \<not> topic_populated (fst (Response_UnmarshalJSON zero_Response (Some (JObject kvs)))))
   \<and> ((\<forall>m \<in> set kvs. match_field response_fields (fst m) \<notin> Some ` set multicast_fields) \<longrightarrow>
      \<not> multicast_populated (fst (Response_UnmarshalJSON zero_Response (Some (JObject kvs)))))"
  using no_topic_member [of kvs] no_multicast_member [of kvs] by (intro conjI impI)

text \<open>Claim C8, amended, at a payload of the multicast shape and at one of the topic shape.\<close>

theorem C8_groups_follow_keys_witness:
  "\<not> topic_populated (fst (Response_UnmarshalJSON zero_Response
      (Some (JObject [(''multicast_id'', JInt 108), (''success'', JInt 1)]))))
   \<and> multicast_populated (fst (Response_UnmarshalJSON zero_Response
      (Some (JObject [(''multicast_id'', JInt 108), (''success'', JInt 1)]))))
   \<and> \<not> multicast_populated (fst (Response_UnmarshalJSON zero_Response
      (Some (JObject [(''message_id'', JInt 42), (''error'', JString ''Unavailable'')]))))
   \<and> topic_populated (fst (Response_UnmarshalJSON zero_Response
      (Some (JObject [(''message_id'', JInt 42), (''error'', JString ''Unavailable'')]))))"
proof -
  let ?m = "[(''multicast_id'', JInt 108), (''success'', JInt 1)]"
  let ?t = "[(''message_id'', JInt 42), (''error'', JString ''Unavailable'')]"
  have h1: "\<forall>m \<in> set ?m. match_field response_fields (fst m) \<notin> Some ` set topic_fields"
    by (simp add: match_response_fields topic_fields_def)
  have h2: "\<forall>m \<in> set ?t. match_field response_fields (fst m) \<notin> Some ` set multicast_fields"
    by (simp add: match_response_fields multicast_fields_def)
  from C8_groups_follow_keys [of ?m, THEN conjunct1, THEN mp, OF h1]
  have a: "\<not> topic_populated (fst (Response_UnmarshalJSON zero_Response (Some (JObject ?m))))" .
  from C8_groups_follow_keys [of ?t, THEN conjunct2, THEN mp, OF h2]
  have c: "\<not> multicast_populated (fst (Response_UnmarshalJSON zero_Response
      (Some (JObject ?t))))" .
  have "json_Unmarshal response_fields response_store (Some (JObject ?m)) zero_response =
    Inr (zero_response\<lparr>response_MulticastID := 108, response_Success := 1\<rparr>)"
    by (simp add: json_Unmarshal_def match_response_fields response_store_def decode_int_def)
  then have b: "multicast_populated (fst (Response_UnmarshalJSON zero_Response
      (Some (JObject ?m))))"
    by (simp add: Response_UnmarshalJSON_def zero_response_def zero_Response_def
        multicast_populated_def)
  have "json_Unmarshal response_fields response_store (Some (JObject ?t)) zero_response =
    Inr (zero_response\<lparr>response_MessageID := 42, response_Error := ''Unavailable''\<rparr>)"
    by (simp add: json_Unmarshal_def match_response_fields response_store_def decode_int_def
        decode_string_def)
  then have d: "topic_populated (fst (Response_UnmarshalJSON zero_Response
      (Some (JObject ?t))))"
    by (simp add: Response_UnmarshalJSON_def zero_response_def zero_Response_def
        topic_populated_def)
  show ?thesis by (intro conjI a b c d)
qed

text \<open>
  Claim C9. The topic payload \<open>{"message_id":42,"error":"InvalidParameters"}\<close> decodes
  without error into a fresh Response: the message identifier is 42, the error is
  \<open>ErrInvalidParameters\<close>, the results are the \<open>nil\<close> slice and every other field is
  zero.
\<close>

theorem C9_topic_payload:
  "Response_UnmarshalJSON zero_Response
     (Some (JObject [(''message_id'', JInt 42), (''error'', JString ''InvalidParameters'')])) =
   (\<lparr>Response_MulticastID = 0, Response_Success = 0, Response_Failure = 0,
      Response_CanonicalIDs = 0, Response_Results = NilSlice,
      Response_FailedRegistrationIDs = NilSlice, Response_MessageID = 42,
      Response_Error = Some ErrInvalidParameters\<rparr>, None)"
proof -
  have "json_Unmarshal response_fields response_store
      (Some (JObject [(''message_id'', JInt 42), (''error'', JString ''InvalidParameters'')]))
      zero_response =
    Inr (zero_response\<lparr>response_MessageID := 42, response_Error := ''InvalidParameters''\<rparr>)"
    by (simp add: json_Unmarshal_def match_response_fields response_store_def decode_int_def
        decode_string_def)
  then show ?thesis
    by (simp add: Response_UnmarshalJSON_def classify_known zero_response_def zero_Response_def)
qed

text \<open>
  Claim C10. The empty object decodes without error, and the decoded Response has identifiers
  and counts 0 and both slices \<open>nil\<close>, whatever the receiver held before; its error is the
  receiver's, which the method does not assign, so a fresh Response comes out as the zero
  Response with no error. A member that gives 0 to one of the five integer fields changes
  nothing of what a payload decodes to, at whatever place it stands and however its key is
  spelled, as long as no member before it selects the same field; so \<open>{"multicast_id":0}\<close>
  decodes to what \<open>{}\<close> decodes to.
\<close>

theorem C10_empty_object:
  "Response_UnmarshalJSON r (Some (JObject [])) =
     (\<lparr>Response_MulticastID = 0, Response_Success = 0, Response_Failure = 0,
        Response_CanonicalIDs = 0, Response_Results = NilSlice,
        Response_FailedRegistrationIDs = NilSlice, Response_MessageID = 0,
        Response_Error = Response_Error r\<rparr>, None)
   \<and> Response_UnmarshalJSON zero_Response (Some (JObject [])) = (zero_Response, None)
   \<and> Response_MulticastID zero_Response = 0 \<and> Response_MessageID zero_Response = 0
   \<and> Response_Success zero_Response = 0 \<and> Response_Failure zero_Response = 0
   \<and> Response_CanonicalIDs zero_Response = 0
   \<and> Response_Results zero_Response = NilSlice
   \<and> Response_FailedRegistrationIDs zero_Response = NilSlice
   \<and> Response_Error zero_Response = None
   \<and> (match_field response_fields k = Some g \<and> g \<in> set int_fields
        \<and> (\<forall>m \<in> set pre. match_field response_fields (fst m) \<noteq> Some g) \<longrightarrow>
      Response_UnmarshalJSON r (Some (JObject (pre @ (k, JInt 0) # post))) =
        Response_UnmarshalJSON r (Some (JObject (pre @ post))))
   \<and> Response_UnmarshalJSON r (Some (JObject ((''multicast_id'', JInt 0) # kvs))) =
       Response_UnmarshalJSON r (Some (JObject kvs))
   \<and> Response_UnmarshalJSON r (Some (JObject ((''success'', JInt 0) # kvs))) =
       Response_UnmarshalJSON r (Some (JObject kvs))
   \<and> Response_UnmarshalJSON r (Some (JObject ((''failure'', JInt 0) # kvs))) =
       Response_UnmarshalJSON r (Some (JObject kvs))
   \<and> Response_UnmarshalJSON r (Some (JObject ((''canonical_ids'', JInt 0) # kvs))) =
       Response_UnmarshalJSON r (Some (JObject kvs))
   \<and> Response_UnmarshalJSON r (Some (JObject ((''message_id'', JInt 0) # kvs))) =
       Response_UnmarshalJSON r (Some (JObject kvs))
   \<and> Response_UnmarshalJSON zero_Response (Some (JObject [(''multicast_id'', JInt 0)])) =
       Response_UnmarshalJSON zero_Response (Some (JObject []))"
proof -
  have z: "Response_MulticastID zero_Response = 0" "Response_MessageID zero_Response = 0"
    "Response_Success zero_Response = 0" "Response_Failure zero_Response = 0"
    "Response_CanonicalIDs zero_Response = 0"
    "Response_Results zero_Response = NilSlice"
    "Response_FailedRegistrationIDs zero_Response = NilSlice"
    "Response_Error zero_Response = None"
    by (simp_all add: zero_Response_def)
  have anywhere: "match_field response_fields k = Some g \<and> g \<in> set int_fields
        \<and> (\<forall>m \<in> set pre. match_field response_fields (fst m) \<noteq> Some g) \<longrightarrow>
      Response_UnmarshalJSON r (Some (JObject (pre @ (k, JInt 0) # post))) =
        Response_UnmarshalJSON r (Some (JObject (pre @ post)))"
  proof
    assume h: "match_field response_fields k = Some g \<and> g \<in> set int_fields
        \<and> (\<forall>m \<in> set pre. match_field response_fields (fst m) \<noteq> Some g)"
    from h have k: "match_field response_fields k = Some g" by (rule conjunct1)
    from h have g: "g \<in> set int_fields" by (elim conjE)
    from h have keys: "\<forall>m \<in> set pre. match_field response_fields (fst m) \<noteq> Some g"
      by (elim conjE)
    from k g keys
    show "Response_UnmarshalJSON r (Some (JObject (pre @ (k, JInt 0) # post))) =
        Response_UnmarshalJSON r (Some (JObject (pre @ post)))"
      by (rule zero_member_anywhere)
  qed
  have front: "Response_UnmarshalJSON r (Some (JObject ((f, JInt 0) # kvs))) =
       Response_UnmarshalJSON r (Some (JObject kvs))"
    if "match_field response_fields f = Some f"
      and "response_store f (JInt 0) zero_response = Inr zero_response" for f r kvs
    using that by (simp add: Response_UnmarshalJSON_def json_Unmarshal_def)
  show ?thesis
    by (intro conjI Response_UnmarshalJSON_empty_any Response_UnmarshalJSON_empty z anywhere
        front match_response_fields response_store_zero)
qed

text \<open>
  Claim C10 at a Response that holds values already: the member \<open>"Failure":0\<close> between
  two others changes nothing, and the empty object resets every field but the error.
\<close>

theorem C10_empty_object_witness:
  "Response_UnmarshalJSON stale_Response
     (Some (JObject ([(''success'', JInt 1)] @ (''Failure'', JInt 0) # [(''message_id'', JInt 42)])))
   = Response_UnmarshalJSON stale_Response
     (Some (JObject ([(''success'', JInt 1)] @ [(''message_id'', JInt 42)])))
   \<and> Response_UnmarshalJSON stale_Response
     (Some (JObject ([(''success'', JInt 1)] @ [(''message_id'', JInt 42)]))) =
     (\<lparr>Response_MulticastID = 0, Response_Success = 1, Response_Failure = 0,
        Response_CanonicalIDs = 0, Response_Results = NilSlice,
        Response_FailedRegistrationIDs = NilSlice, Response_MessageID = 42,
        Response_Error = Some ErrUnavailable\<rparr>, None)
   \<and> Response_UnmarshalJSON stale_Response (Some (JObject [])) =
     (\<lparr>Response_MulticastID = 0, Response_Success = 0, Response_Failure = 0,
        Response_CanonicalIDs = 0, Response_Results = NilSlice,
        Response_FailedRegistrationIDs = NilSlice, Response_MessageID = 0,
        Response_Error = Some ErrUnavailable\<rparr>, None)"
proof -
  have h: "match_field response_fields ''Failure'' = Some ''failure''
      \<and> ''failure'' \<in> set int_fields
      \<and> (\<forall>m \<in> set [(''success'', JInt 1)].
            match_field response_fields (fst m) \<noteq> Some ''failure'')"
    by (simp add: match_folded_failure match_response_fields int_fields_def)
  note t = C10_empty_object [where r = stale_Response and k = "''Failure''" and g = "''failure''"
      and pre = "[(''success'', JInt 1)]" and post = "[(''message_id'', JInt 42)]"]
  from t [THEN conjunct2, THEN conjunct2, THEN conjunct2, THEN conjunct2, THEN conjunct2,
      THEN conjunct2, THEN conjunct2, THEN conjunct2, THEN conjunct2, THEN conjunct2,
      THEN conjunct1, THEN mp, OF h]
  have a: "Response_UnmarshalJSON stale_Response
     (Some (JObject ([(''success'', JInt 1)] @ (''Failure'', JInt 0) # [(''message_id'', JInt 42)])))
   = Response_UnmarshalJSON stale_Response
     (Some (JObject ([(''success'', JInt 1)] @ [(''message_id'', JInt 42)])))" .
  have "json_Unmarshal response_fields response_store
      (Some (JObject ([(''success'', JInt 1)] @ [(''message_id'', JInt 42)]))) zero_response =
    Inr (zero_response\<lparr>response_Success := 1, response_MessageID := 42\<rparr>)"
    by (simp add: json_Unmarshal_def match_response_fields response_store_def decode_int_def)
  then have b: "Response_UnmarshalJSON stale_Response
     (Some (JObject ([(''success'', JInt 1)] @ [(''message_id'', JInt 42)]))) =
     (\<lparr>Response_MulticastID = 0, Response_Success = 1, Response_Failure = 0,
        Response_CanonicalIDs = 0, Response_Results = NilSlice,
        Response_FailedRegistrationIDs = NilSlice, Response_MessageID = 42,
        Response_Error = Some ErrUnavailable\<rparr>, None)"
    by (simp add: Response_UnmarshalJSON_def zero_response_def stale_Response_def
        zero_Response_def)
  from t [THEN conjunct1]
  have c: "Response_UnmarshalJSON stale_Response (Some (JObject [])) =
     (\<lparr>Response_MulticastID = 0, Response_Success = 0, Response_Failure = 0,
        Response_CanonicalIDs = 0, Response_Results = NilSlice,
        Response_FailedRegistrationIDs = NilSlice, Response_MessageID = 0,
        Response_Error = Some ErrUnavailable\<rparr>, None)"
    by (simp add: stale_Response_def zero_Response_def)
  show ?thesis by (intro conjI a b c)
qed

end
